theory Spec2Isabelle
  imports Complex_Main "HOL-Library.AList" "HOL-Library.Sublist" "HOL-Library.Multiset"
begin

section \<open>JavaScript strings\<close>

text \<open>
  Identifiers are modelled as ASCII strings. \<^verbatim>\<open>String.prototype.toLowerCase\<close> maps the
  letters A to Z to a to z and leaves every other character alone;
  \<^verbatim>\<open>String.prototype.includes\<close> is the test for a contiguous substring.
\<close>

definition lowerChar :: "char \<Rightarrow> char" where
  "lowerChar c =
     (case map_of (zip ''ABCDEFGHIJKLMNOPQRSTUVWXYZ'' ''abcdefghijklmnopqrstuvwxyz'') c of
        Some l \<Rightarrow> l
      | None \<Rightarrow> c)"

definition toLowerCase :: "string \<Rightarrow> string" where
  "toLowerCase s = map lowerChar s"

fun includesStr :: "string \<Rightarrow> string \<Rightarrow> bool" where
  "includesStr [] k = (k = [])"
| "includesStr (c # cs) k = (prefix k (c # cs) \<or> includesStr cs k)"

text \<open>The truthiness of a possibly absent string: present and not empty.\<close>

fun truthyStr :: "string option \<Rightarrow> bool" where
  "truthyStr None = False"
| "truthyStr (Some s) = (s \<noteq> [])"

text \<open>\<^verbatim>\<open>s || dflt\<close> for a possibly absent string \<^verbatim>\<open>s\<close>.\<close>

fun orStr :: "string option \<Rightarrow> string \<Rightarrow> string" where
  "orStr None dflt = dflt"
| "orStr (Some s) dflt = (if s = [] then dflt else s)"

subsection \<open>The lagrange point pattern\<close>

text \<open>
  The three regular expressions of the sources,
  \<^verbatim>\<open>/stanton(\d+)_l(\d+)/\<close>, \<^verbatim>\<open>/stanton(\d+)_l\d+/\<close> and \<^verbatim>\<open>/stanton\d+_l\d+/\<close>, accept the same
  strings and are not anchored. \<^verbatim>\<open>\d+\<close> is greedy; giving a digit back never helps, since
  the character that must follow is not a digit. So a match at a position takes the
  longest run of digits after \<^verbatim>\<open>stanton\<close>, then \<^verbatim>\<open>_l\<close>, then the longest run of digits, both
  runs non-empty, and \<^verbatim>\<open>String.prototype.match\<close> reports the leftmost position that
  matches. The result is the pair of the two digit runs (capture groups 1 and 2).
\<close>

definition isDigit :: "char \<Rightarrow> bool" where
  "isDigit c = (c \<in> set ''0123456789'')"

definition matchLagrangeAt :: "string \<Rightarrow> (string \<times> string) option" where
  "matchLagrangeAt s =
     (if prefix ''stanton'' s then
        let afterName = drop 7 s;
            planetNumber = takeWhile isDigit afterName;
            afterPlanet = dropWhile isDigit afterName
        in if planetNumber \<noteq> [] \<and> prefix ''_l'' afterPlanet then
             let lagrangeNumber = takeWhile isDigit (drop 2 afterPlanet)
             in if lagrangeNumber \<noteq> [] then Some (planetNumber, lagrangeNumber) else None
           else None
      else None)"

fun matchLagrange :: "string \<Rightarrow> (string \<times> string) option" where
  "matchLagrange [] = None"
| "matchLagrange (c # cs) =
     (case matchLagrangeAt (c # cs) of
        Some groups \<Rightarrow> Some groups
      | None \<Rightarrow> matchLagrange cs)"

section \<open>JavaScript numbers\<close>

text \<open>
  A number is a finite value or one of the three special values of IEEE arithmetic.
  Finite values are reals: the model does not round, does not overflow and has a single
  zero. The route planner and the alert score are modelled on finite numbers only and
  use \<^typ>\<open>real\<close> directly.
\<close>

datatype jsnum = Fin real | PosInf | NegInf | NaN



text \<open>\<^verbatim>\<open>n || 0\<close> for a possibly absent number: absent, zero and NaN are falsy.\<close>

fun orZero :: "jsnum option \<Rightarrow> jsnum" where
  "orZero None = Fin 0"
| "orZero (Some NaN) = Fin 0"
| "orZero (Some n) = n"

fun jneg :: "jsnum \<Rightarrow> jsnum" where
  "jneg (Fin a) = Fin (- a)"
| "jneg PosInf = NegInf"
| "jneg NegInf = PosInf"
| "jneg NaN = NaN"

fun jadd :: "jsnum \<Rightarrow> jsnum \<Rightarrow> jsnum" where
  "jadd NaN _ = NaN"
| "jadd _ NaN = NaN"
| "jadd (Fin a) (Fin b) = Fin (a + b)"
| "jadd PosInf NegInf = NaN"
| "jadd NegInf PosInf = NaN"
| "jadd PosInf _ = PosInf"
| "jadd NegInf _ = NegInf"
| "jadd (Fin _) b = b"

definition jsub :: "jsnum \<Rightarrow> jsnum \<Rightarrow> jsnum" where
  "jsub a b = jadd a (jneg b)"

text \<open>The sign of a number that is not NaN: \<open>-1\<close>, \<open>0\<close> or \<open>1\<close>.\<close>

fun jsign :: "jsnum \<Rightarrow> int" where
  "jsign (Fin a) = (if a < 0 then - 1 else if a = 0 then 0 else 1)"
| "jsign PosInf = 1"
| "jsign NegInf = - 1"
| "jsign NaN = 0"

definition infOfSign :: "int \<Rightarrow> jsnum" where
  "infOfSign s = (if s = 0 then NaN else if 0 < s then PosInf else NegInf)"

fun jmul :: "jsnum \<Rightarrow> jsnum \<Rightarrow> jsnum" where
  "jmul NaN _ = NaN"
| "jmul _ NaN = NaN"
| "jmul (Fin a) (Fin b) = Fin (a * b)"
| "jmul a b = infOfSign (jsign a * jsign b)"

text \<open>
  Division. Every divisor in the modelled code is the result of \<^verbatim>\<open>Math.sqrt\<close>, so a zero
  divisor is the positive zero.
\<close>

fun jdiv :: "jsnum \<Rightarrow> jsnum \<Rightarrow> jsnum" where
  "jdiv NaN _ = NaN"
| "jdiv _ NaN = NaN"
| "jdiv (Fin a) (Fin b) = (if b = 0 then infOfSign (jsign (Fin a)) else Fin (a / b))"
| "jdiv (Fin _) _ = Fin 0"
| "jdiv a (Fin b) = infOfSign (jsign a * (if b < 0 then - 1 else 1))"
| "jdiv _ _ = NaN"

fun jsqrt :: "jsnum \<Rightarrow> jsnum" where
  "jsqrt (Fin a) = (if a < 0 then NaN else Fin (sqrt a))"
| "jsqrt PosInf = PosInf"
| "jsqrt _ = NaN"

fun jabs :: "jsnum \<Rightarrow> jsnum" where
  "jabs (Fin a) = Fin \<bar>a\<bar>"
| "jabs NaN = NaN"
| "jabs _ = PosInf"

text \<open>\<^verbatim>\<open>a > b\<close>: false as soon as one side is NaN.\<close>

fun jgreater :: "jsnum \<Rightarrow> jsnum \<Rightarrow> bool" where
  "jgreater NaN _ = False"
| "jgreater _ NaN = False"
| "jgreater (Fin a) (Fin b) = (b < a)"
| "jgreater PosInf b = (b \<noteq> PosInf)"
| "jgreater a NegInf = (a \<noteq> NegInf)"
| "jgreater _ _ = False"

fun jcos :: "jsnum \<Rightarrow> jsnum" where
  "jcos (Fin a) = Fin (cos a)"
| "jcos _ = NaN"

fun jsin :: "jsnum \<Rightarrow> jsnum" where
  "jsin (Fin a) = Fin (sin a)"
| "jsin _ = NaN"

section \<open>Alert scoring (src/utils/alertUtils.ts)\<close>

text \<open>
  \<^verbatim>\<open>calculateSafetyScore(alert, confirmationWeight = 0.7, disputeWeight = 0.3)\<close>.
  The argument \<^verbatim>\<open>alert\<close> is used only through its two vote counts, which are passed
  here as natural numbers; the weights and the score are JavaScript numbers, modelled as
  reals (exact arithmetic, no rounding).
\<close>

definition calculateSafetyScore :: "nat \<Rightarrow> nat \<Rightarrow> real \<Rightarrow> real \<Rightarrow> real" where
  "calculateSafetyScore confirmations disputes confirmationWeight disputeWeight =
     (let totalVotes = confirmations + disputes in
      if totalVotes = 0 then 50
      else
        let confirmationRatio = real confirmations / real totalVotes;
            rawScore = 100 - (confirmationRatio * 100 * confirmationWeight)
                       + ((1 - confirmationRatio) * 100 * disputeWeight)
        in max 0 (min 100 rawScore))"

text \<open>The call with both default parameter values.\<close>

definition calculateSafetyScore_default :: "nat \<Rightarrow> nat \<Rightarrow> real" where
  "calculateSafetyScore_default confirmations disputes =
     calculateSafetyScore confirmations disputes (7 / 10) (3 / 10)"

section \<open>Data model (src/models/StarSystemTypes.ts, models/stanton)\<close>

text \<open>
  \<^verbatim>\<open>Position\<close>, \<^verbatim>\<open>Rotation\<close> and \<^verbatim>\<open>CelestialObject\<close> have the same fields in both model files.
  The type parameter is the model of \<^verbatim>\<open>number\<close>: \<^typ>\<open>jsnum\<close> for the star system service
  and its debugger, \<^typ>\<open>real\<close> for the route planner. A field name that two interfaces
  share keeps its name in one record and carries a prefix in the others (\<open>rot_\<close>, \<open>raw_\<close>,
  \<open>sys_\<close>, \<open>loc_\<close>, \<open>alert_\<close>, \<open>ship_\<close>, \<open>wp_\<close>).
\<close>

record 'n Position =
  x :: 'n
  y :: 'n
  z :: 'n

record 'n Rotation =
  rot_w :: 'n
  rot_x :: 'n
  rot_y :: 'n
  rot_z :: 'n

text \<open>
  \<^verbatim>\<open>ObjectType\<close> is a string enum: each member's value is its own name, and a
  \<^verbatim>\<open>CelestialObject\<close> stores that string in its \<^verbatim>\<open>type\<close> field. A payload's \<^verbatim>\<open>type\<close> string can
  be cast into the field unchecked, so the field is a string.
\<close>

datatype ObjectType =
  Star | Planet | Moon | JumpPoint | LagrangePoint | Station | SpaceStation | Outpost
  | LandingZone | CommArray | RestStop | OrbitMarker | Generic

fun enumValue :: "ObjectType \<Rightarrow> string" where
  "enumValue Star = ''Star''"
| "enumValue Planet = ''Planet''"
| "enumValue Moon = ''Moon''"
| "enumValue JumpPoint = ''JumpPoint''"
| "enumValue LagrangePoint = ''LagrangePoint''"
| "enumValue Station = ''Station''"
| "enumValue SpaceStation = ''SpaceStation''"
| "enumValue Outpost = ''Outpost''"
| "enumValue LandingZone = ''LandingZone''"
| "enumValue CommArray = ''CommArray''"
| "enumValue RestStop = ''RestStop''"
| "enumValue OrbitMarker = ''OrbitMarker''"
| "enumValue Generic = ''Generic''"

record 'n CelestialObject =
  name :: string
  display_name :: string
  parent :: string
  type :: string
  position :: "'n Position"
  rotation :: "'n Rotation"
  size :: 'n
  arrivalRadius :: 'n
  obstructionRadius :: 'n
  atmoHeight :: 'n
  system_entity_name :: string

text \<open>
  A raw record of the input feed (\<^verbatim>\<open>Record<string, any>\<close>): every field may be absent. A
  field that is present has the type the interfaces declare for it.
\<close>

record RawData =
  raw_arrivalRadius :: "jsnum option"
  raw_atmoHeight :: "jsnum option"
  raw_display_name :: "string option"
  raw_name :: "string option"
  raw_obstructionRadius :: "jsnum option"
  raw_parent :: "string option"
  raw_position :: "jsnum Position option"
  raw_rotation :: "jsnum Rotation option"
  raw_size :: "jsnum option"
  raw_system_entity_name :: "string option"
  raw_type :: "string option"

text \<open>The record \<^verbatim>\<open>{}\<close>.\<close>

definition emptyData :: RawData where
  "emptyData =
     \<lparr>raw_arrivalRadius = None, raw_atmoHeight = None, raw_display_name = None,
      raw_name = None, raw_obstructionRadius = None, raw_parent = None,
      raw_position = None, raw_rotation = None, raw_size = None,
      raw_system_entity_name = None, raw_type = None\<rparr>"

text \<open>
  A plain object used as a dictionary and a \<^verbatim>\<open>Map\<close> are both association lists in
  iteration order: a lookup is \<^const>\<open>map_of\<close>, and writing a key replaces its value in
  place or appends a new entry (\<^const>\<open>AList.update\<close>). Keys are identifiers, none of
  them an array index.
\<close>

type_synonym 'v dict = "(string \<times> 'v) list"

record StarSystem =
  sys_name :: string
  star :: "jsnum CelestialObject"
  children :: "jsnum CelestialObject dict"
  sys_objectsById :: "jsnum CelestialObject dict"
  sys_objectsByType :: "jsnum CelestialObject list dict"

section \<open>Geometry (SpaceUtils)\<close>

definition calculateAbsolutePosition ::
  "jsnum CelestialObject \<Rightarrow> jsnum Position \<Rightarrow> jsnum Position" where
  "calculateAbsolutePosition object parentPosition =
     \<lparr>x = jadd (x parentPosition) (x (position object)),
      y = jadd (y parentPosition) (y (position object)),
      z = jadd (z parentPosition) (z (position object))\<rparr>"

text \<open>The loop of \<^verbatim>\<open>generateOrbitPath\<close> from index \<open>i\<close> on; it pushes one point per round.\<close>

function orbitPoints ::
  "jsnum \<Rightarrow> jsnum Position \<Rightarrow> jsnum Position \<Rightarrow> nat \<Rightarrow> nat \<Rightarrow> jsnum Position list" where
  "orbitPoints radius v1Norm v2Norm steps i =
     (if i < steps then
        let angle = Fin ((real i / real steps) * pi * 2);
            px = jadd (jmul (jmul radius (jcos angle)) (x v1Norm))
                      (jmul (jmul radius (jsin angle)) (x v2Norm));
            py = jadd (jmul (jmul radius (jcos angle)) (y v1Norm))
                      (jmul (jmul radius (jsin angle)) (y v2Norm));
            pz = jadd (jmul (jmul radius (jcos angle)) (z v1Norm))
                      (jmul (jmul radius (jsin angle)) (z v2Norm))
        in \<lparr>x = px, y = py, z = pz\<rparr> # orbitPoints radius v1Norm v2Norm steps (Suc i)
      else [])"
  by pat_completeness auto
termination
  by (relation "measure (\<lambda>(radius, v1Norm, v2Norm, steps, i). steps - i)") auto

definition magnitude :: "jsnum Position \<Rightarrow> jsnum" where
  "magnitude v = jsqrt (jadd (jadd (jmul (x v) (x v)) (jmul (y v) (y v))) (jmul (z v) (z v)))"

definition normalized :: "jsnum Position \<Rightarrow> jsnum \<Rightarrow> jsnum Position" where
  "normalized v mag = \<lparr>x = jdiv (x v) mag, y = jdiv (y v) mag, z = jdiv (z v) mag\<rparr>"

definition cross :: "jsnum Position \<Rightarrow> jsnum Position \<Rightarrow> jsnum Position" where
  "cross a b =
     \<lparr>x = jsub (jmul (y a) (z b)) (jmul (z a) (y b)),
      y = jsub (jmul (z a) (x b)) (jmul (x a) (z b)),
      z = jsub (jmul (x a) (y b)) (jmul (y a) (x b))\<rparr>"

text \<open>
  \<^verbatim>\<open>generateOrbitPath(object, steps = 100)\<close>; \<^verbatim>\<open>steps\<close> is a count. The source writes every
  magnitude, normalisation and cross product out by components; \<^const>\<open>magnitude\<close>,
  \<^const>\<open>normalized\<close> and \<^const>\<open>cross\<close> are those expressions.
\<close>

definition generateOrbitPath :: "jsnum CelestialObject \<Rightarrow> nat \<Rightarrow> jsnum Position list" where
  "generateOrbitPath object steps =
     (let radius = magnitude (position object);
          positionMagnitude = magnitude (position object);
          posNorm = normalized (position object) positionMagnitude;
          perpVector =
            (if jgreater (jabs (y posNorm)) (Fin (9 / 10))
             then \<lparr>x = Fin 1, y = Fin 0, z = Fin 0\<rparr>
             else \<lparr>x = Fin 0, y = Fin 1, z = Fin 0\<rparr>);
          v1 = cross posNorm perpVector;
          v1Norm = normalized v1 (magnitude v1);
          v2 = cross posNorm v1Norm;
          v2Norm = normalized v2 (magnitude v2)
      in orbitPoints radius v1Norm v2Norm steps 0)"

section \<open>The star system service (StarSystemService)\<close>

datatype error =
  SystemDataNotLoaded  \<comment> \<open>\<^verbatim>\<open>Error("System data not loaded")\<close>\<close>
| StarNotFound  \<comment> \<open>\<^verbatim>\<open>Error("Star not found in the system data")\<close>\<close>
| ObjectNotFound  \<comment> \<open>\<^verbatim>\<open>Error('Start or end object not found in Stanton data')\<close>\<close>

record Service =
  systemData :: "RawData dict option"
  starSystem :: "StarSystem option"
  objectsById :: "jsnum CelestialObject dict"
  objectsByType :: "jsnum CelestialObject list dict"
  objectsByParent :: "jsnum CelestialObject list dict"

definition starPosition :: "jsnum Position" where
  "starPosition = \<lparr>x = Fin 0, y = Fin 0, z = Fin 0\<rparr>"

text \<open>The state of \<^verbatim>\<open>new StarSystemService()\<close>.\<close>

definition newService :: Service where
  "newService =
     \<lparr>systemData = None, starSystem = None, objectsById = [], objectsByType = [],
      objectsByParent = []\<rparr>"

subsection \<open>createInferredObjects\<close>

text \<open>\<^verbatim>\<open>Set.prototype.add\<close> on a set kept in insertion order.\<close>

definition setAdd :: "'a list \<Rightarrow> 'a \<Rightarrow> 'a list" where
  "setAdd s v = (if v \<in> set s then s else s @ [v])"

definition referencedParents :: "RawData dict \<Rightarrow> string list" where
  "referencedParents data =
     foldl (\<lambda>s d. case raw_parent d of
                     None \<Rightarrow> s
                   | Some p \<Rightarrow> if p \<noteq> [] then setAdd s p else s)
           [] (map snd data)"

definition inferredLagrangePoint :: "string \<Rightarrow> string \<Rightarrow> string \<Rightarrow> RawData" where
  "inferredLagrangePoint parentId planetNumber lagrangeNumber =
     \<lparr>raw_arrivalRadius = Some (Fin 1000),
      raw_atmoHeight = Some (Fin 0),
      raw_display_name = Some (''L'' @ lagrangeNumber),
      raw_name = Some parentId,
      raw_obstructionRadius = Some (Fin 0),
      raw_parent = Some (''stanton'' @ planetNumber),
      raw_position = Some \<lparr>x = Fin 0, y = Fin 0, z = Fin 0\<rparr>,
      raw_rotation = Some \<lparr>rot_w = Fin 1, rot_x = Fin 0, rot_y = Fin 0, rot_z = Fin 0\<rparr>,
      raw_size = Some (Fin 1000),
      raw_system_entity_name = Some (''Inferred_'' @ parentId),
      raw_type = Some ''LagrangePoint''\<rparr>"

text \<open>The second loop: one round for a referenced parent id.\<close>

definition inferStep :: "RawData dict \<Rightarrow> RawData dict \<Rightarrow> string \<Rightarrow> RawData dict" where
  "inferStep data inferredObjects parentId =
     (case map_of data parentId of
        Some _ \<Rightarrow> inferredObjects
      | None \<Rightarrow>
          (case matchLagrange parentId of
             Some (planetNumber, lagrangeNumber) \<Rightarrow>
               AList.update parentId
                 (inferredLagrangePoint parentId planetNumber lagrangeNumber) inferredObjects
           | None \<Rightarrow> inferredObjects))"

definition createInferredObjects :: "RawData dict \<Rightarrow> RawData dict" where
  "createInferredObjects data =
     (let inferredObjects = foldl (inferStep data) [] (referencedParents data)
      in foldl (\<lambda>sd (ident, d). AList.update ident d sd) data inferredObjects)"

subsection \<open>createCelestialObject\<close>

text \<open>The chain of tests at the head of \<^verbatim>\<open>createCelestialObject\<close> that computes \<^verbatim>\<open>type\<close>.\<close>

definition classify :: "string \<Rightarrow> RawData \<Rightarrow> string" where
  "classify ident data =
     (if includesStr (toLowerCase ident) ''jumppoint'' then enumValue JumpPoint
      else if includesStr (toLowerCase ident) ''lagrange'' then enumValue LagrangePoint
      else if includesStr (toLowerCase ident) ''commarray'' then enumValue CommArray
      else if includesStr (toLowerCase ident) ''star'' then enumValue Star
      else if includesStr (toLowerCase ident) ''planet'' \<or> raw_type data = Some ''Planet''
        then enumValue Planet
      else if includesStr (toLowerCase ident) ''moon'' \<or> raw_type data = Some ''Moon''
        then enumValue Moon
      else if includesStr (toLowerCase ident) ''station'' \<or> raw_type data = Some ''Station''
        then enumValue Station
      else if includesStr (toLowerCase ident) ''outpost'' \<or> raw_type data = Some ''Outpost''
        then enumValue Outpost
      else if includesStr (toLowerCase ident) ''reststop'' \<or> raw_type data = Some ''RestStop''
        then enumValue RestStop
      else if includesStr (toLowerCase ident) ''landingzone''
              \<or> raw_type data = Some ''LandingZone''
        then enumValue LandingZone
      else if includesStr (toLowerCase ident) ''orbitmarker''
              \<or> raw_type data = Some ''OrbitMarker''
        then enumValue OrbitMarker
      else orStr (raw_type data) (enumValue Generic))"

definition createCelestialObject :: "string \<Rightarrow> RawData \<Rightarrow> jsnum CelestialObject" where
  "createCelestialObject ident data =
     \<lparr>name = ident,
      display_name = orStr (raw_display_name data) ident,
      parent = orStr (raw_parent data) [],
      type = classify ident data,
      position = (case raw_position data of
                    Some p \<Rightarrow> p
                  | None \<Rightarrow> \<lparr>x = Fin 0, y = Fin 0, z = Fin 0\<rparr>),
      rotation = (case raw_rotation data of
                    Some r \<Rightarrow> r
                  | None \<Rightarrow> \<lparr>rot_w = Fin 1, rot_x = Fin 0, rot_y = Fin 0, rot_z = Fin 0\<rparr>),
      size = orZero (raw_size data),
      arrivalRadius = orZero (raw_arrivalRadius data),
      obstructionRadius = orZero (raw_obstructionRadius data),
      atmoHeight = orZero (raw_atmoHeight data),
      system_entity_name = orStr (raw_system_entity_name data) ident\<rparr>"

subsection \<open>fixParentChildRelationships\<close>

text \<open>
  The repair of one record whose parent is set and unknown. \<^verbatim>\<open>source\<close> is the string the
  pattern is matched against: the record's id in the lagrange branch, its old parent in
  the rest stop branch. Without a match the record is left as it is.
\<close>

definition retargetByPattern ::
  "string set \<Rightarrow> string option \<Rightarrow> string \<Rightarrow> RawData \<Rightarrow> RawData" where
  "retargetByPattern knownObjectIds starKey source data =
     (case matchLagrange source of
        Some (planetNumber, _) \<Rightarrow>
          (let planetId = ''stanton'' @ planetNumber
           in if planetId \<in> knownObjectIds then data\<lparr>raw_parent := Some planetId\<rparr>
              else data\<lparr>raw_parent := Some (orStr starKey [])\<rparr>)
      | None \<Rightarrow> data)"

definition fixParent :: "string set \<Rightarrow> string option \<Rightarrow> string \<times> RawData \<Rightarrow> string \<times> RawData"
  where
  "fixParent knownObjectIds starKey entry =
     (let ident = fst entry; data = snd entry in
      case raw_parent data of
        None \<Rightarrow> entry
      | Some p \<Rightarrow>
          if p \<noteq> [] \<and> p \<notin> knownObjectIds then
            if includesStr ident ''_l'' \<and> includesStr ident ''stanton''
              then (ident, retargetByPattern knownObjectIds starKey ident data)
            else if includesStr ident ''station_reststop'' \<and> includesStr ident ''stanton''
              then (ident, retargetByPattern knownObjectIds starKey p data)
            else (ident, data\<lparr>raw_parent := Some (orStr starKey [])\<rparr>)
          else entry)"

definition findStarKey :: "RawData dict \<Rightarrow> string option" where
  "findStarKey data =
     find (\<lambda>key. includesStr (toLowerCase key) ''star'' \<or> includesStr (toLowerCase key) ''sun'')
          (map fst data)"

text \<open>The first step: a star record whose parent is \<^verbatim>\<open>'root'\<close> gets the empty parent.\<close>

definition clearRootSentinel :: "string option \<Rightarrow> RawData dict \<Rightarrow> RawData dict" where
  "clearRootSentinel starKey data =
     (case starKey of
        None \<Rightarrow> data
      | Some k \<Rightarrow>
          (case map_of data k of
             None \<Rightarrow> data
           | Some d \<Rightarrow>
               if k \<noteq> [] \<and> raw_parent d = Some ''root''
               then AList.update k (d\<lparr>raw_parent := Some []\<rparr>) data
               else data))"

text \<open>
  The method rewrites the records of \<^verbatim>\<open>systemData\<close> in place and touches nothing else; the
  model returns the rewritten records.
\<close>

definition fixParentChildRelationships :: "RawData dict \<Rightarrow> RawData dict" where
  "fixParentChildRelationships data =
     (let knownObjectIds = set (map fst data);
          starKey = findStarKey data
      in map (fixParent knownObjectIds starKey) (clearRootSentinel starKey data))"

subsection \<open>findStar\<close>

definition findStar ::
  "jsnum CelestialObject list dict \<Rightarrow> jsnum CelestialObject dict \<Rightarrow> jsnum CelestialObject option"
  where
  "findStar byType byId =
     (case map_of byType (enumValue Star) of
        Some (first # _) \<Rightarrow> Some first
      | _ \<Rightarrow>
          (case find (\<lambda>entry. includesStr (toLowerCase (fst entry)) ''star'') byId of
             Some entry \<Rightarrow> Some (snd entry)
           | None \<Rightarrow>
               (case find (\<lambda>entry. parent (snd entry) = []) byId of
                  Some entry \<Rightarrow> Some (snd entry)
                | None \<Rightarrow> None)))"

subsection \<open>buildHierarchy\<close>

definition getOrEmpty :: "'v list dict \<Rightarrow> string \<Rightarrow> 'v list" where
  "getOrEmpty m k = (case map_of m k of Some vs \<Rightarrow> vs | None \<Rightarrow> [])"

text \<open>
  \<^verbatim>\<open>processChildren\<close> calls itself inside its loop over the children and may recurse
  forever, so its call stack is explicit here: a frame holds the children its loop has
  still to visit and the position of their parent. The stack is unbounded. The absolute
  positions are computed and dropped, as in the source; a result means that the walk
  ends.
\<close>

partial_function (option) processChildren ::
  "jsnum CelestialObject list dict \<Rightarrow> (jsnum CelestialObject list \<times> jsnum Position) list
   \<Rightarrow> unit option" where
  "processChildren byParent frames =
     (case frames of
        [] \<Rightarrow> Some ()
      | frame # callers \<Rightarrow>
          (case fst frame of
             [] \<Rightarrow> processChildren byParent callers
           | child # rest \<Rightarrow>
               (let absolutePosition = calculateAbsolutePosition child (snd frame)
                in processChildren byParent
                     ((getOrEmpty byParent (name child), absolutePosition)
                      # (rest, snd frame) # callers))))"

declare processChildren.simps [code]

definition buildHierarchy :: "Service \<Rightarrow> unit option" where
  "buildHierarchy svc =
     (case starSystem svc of
        None \<Rightarrow> Some ()
      | Some sys \<Rightarrow>
          processChildren (objectsByParent svc)
            [(getOrEmpty (objectsByParent svc) (name (star sys)), starPosition)])"

subsection \<open>processSystemData and loadFromObject\<close>

text \<open>One round of the first pass: construct the object and enter it in the three indexes.\<close>

definition indexObject :: "Service \<Rightarrow> string \<times> RawData \<Rightarrow> Service" where
  "indexObject svc entry =
     (let celestialObject = createCelestialObject (fst entry) (snd entry) in
      svc\<lparr>objectsById := AList.update (fst entry) celestialObject (objectsById svc),
          objectsByType :=
            AList.update (type celestialObject)
              (getOrEmpty (objectsByType svc) (type celestialObject) @ [celestialObject])
              (objectsByType svc),
          objectsByParent :=
            AList.update (parent celestialObject)
              (getOrEmpty (objectsByParent svc) (parent celestialObject) @ [celestialObject])
              (objectsByParent svc)\<rparr>)"

text \<open>
  The result is \<open>None\<close> when the call never returns, \<open>Some (Inl e)\<close> when it throws and
  \<open>Some (Inr (system, service))\<close> when it returns the system and leaves the service in
  the given state.
\<close>

definition processSystemData :: "Service \<Rightarrow> (error + StarSystem \<times> Service) option" where
  "processSystemData svc0 =
     (case systemData svc0 of
        None \<Rightarrow> Some (Inl SystemDataNotLoaded)
      | Some data0 \<Rightarrow>
          (let cleared = svc0\<lparr>objectsById := [], objectsByType := [], objectsByParent := []\<rparr>;
               data1 = createInferredObjects data0;
               indexed = foldl indexObject (cleared\<lparr>systemData := Some data1\<rparr>) data1;
               fixed = indexed\<lparr>systemData := Some (fixParentChildRelationships data1)\<rparr>
           in case findStar (objectsByType fixed) (objectsById fixed) of
                None \<Rightarrow> Some (Inl StarNotFound)
              | Some st \<Rightarrow>
                  (let sys = \<lparr>sys_name = ''Stanton'', star = st, children = [],
                              sys_objectsById = objectsById fixed,
                              sys_objectsByType = objectsByType fixed\<rparr>;
                       built = fixed\<lparr>starSystem := Some sys\<rparr>
                   in map_option (\<lambda>_. Inr (sys, built)) (buildHierarchy built))))"

definition loadFromObject :: "Service \<Rightarrow> RawData dict \<Rightarrow> (error + StarSystem \<times> Service) option"
  where
  "loadFromObject svc data = processSystemData (svc\<lparr>systemData := Some data\<rparr>)"

subsection \<open>Queries\<close>

definition getObjectById :: "Service \<Rightarrow> string \<Rightarrow> jsnum CelestialObject option" where
  "getObjectById svc ident = map_of (objectsById svc) ident"

definition getChildrenOfObject :: "Service \<Rightarrow> string \<Rightarrow> jsnum CelestialObject list" where
  "getChildrenOfObject svc parentId = getOrEmpty (objectsByParent svc) parentId"

definition getOrbitPath :: "Service \<Rightarrow> string \<Rightarrow> nat \<Rightarrow> jsnum Position list" where
  "getOrbitPath svc objectId steps =
     (case map_of (objectsById svc) objectId of
        None \<Rightarrow> []
      | Some object \<Rightarrow> generateOrbitPath object steps)"

text \<open>
  The \<^verbatim>\<open>while\<close> loop of \<^verbatim>\<open>getAbsolutePosition\<close>, from the point where \<^verbatim>\<open>parentId\<close> and
  \<^verbatim>\<open>position\<close> have the given values. The loop has no bound of its own; \<open>None\<close> is the
  loop that never ends.
\<close>

partial_function (option) parentWalk ::
  "jsnum CelestialObject dict \<Rightarrow> string \<Rightarrow> jsnum Position \<Rightarrow> jsnum Position option" where
  "parentWalk byId parentId pos =
     (if parentId \<noteq> [] then
        (case map_of byId parentId of
           None \<Rightarrow> Some pos
         | Some p \<Rightarrow>
             parentWalk byId (parent p)
               \<lparr>x = jadd (x pos) (x (position p)),
                y = jadd (y pos) (y (position p)),
                z = jadd (z pos) (z (position p))\<rparr>)
      else Some pos)"

declare parentWalk.simps [code]

text \<open>
  \<open>Some None\<close> is the result \<^verbatim>\<open>null\<close>, \<open>Some (Some p)\<close> the position \<open>p\<close>, and \<open>None\<close> a call
  that never returns.
\<close>

definition getAbsolutePosition :: "Service \<Rightarrow> string \<Rightarrow> jsnum Position option option" where
  "getAbsolutePosition svc objectId =
     (case map_of (objectsById svc) objectId of
        None \<Rightarrow> Some None
      | Some object \<Rightarrow>
          map_option Some (parentWalk (objectsById svc) (parent object) (position object)))"

section \<open>The validator (SystemDebugger.validateData)\<close>








section \<open>The route planner (src/utils/routePlanner.ts)\<close>

datatype AlertType = pirate | security | debris | anomaly | trade

record AlertLocation =
  loc_position :: "real Position"
  regionId :: string

record RouteAlert =
  alert_id :: string
  location :: AlertLocation
  alertType :: AlertType
  createdBy :: string
  createdAt :: real
  expiresAt :: real
  confirmations :: real
  disputes :: real
  shardId :: string
  safetyScore :: real

record ShipSpecification =
  ship_id :: string
  ship_name :: string
  manufacturer :: string
  ship_size :: real
  fuelCapacity :: real
  fuelConsumption :: real
  quantumSpeed :: real
  scmSpeed :: real
  cargoCapacity :: real

record RouteWaypoint =
  objectId :: string
  wp_position :: "real Position"
  distance :: real
  timeFromPrevious :: real
  nearbyAlerts :: "RouteAlert list"
  wp_safetyScore :: real

record RoutePlan =
  startObjectId :: string
  endObjectId :: string
  waypoints :: "RouteWaypoint list"
  totalDistance :: real
  totalTime :: real
  fuelRequired :: real
  overallSafetyScore :: real

type_synonym StantonSystem = "real CelestialObject dict"

definition DEFAULT_QUANTUM_SPEED :: real where
  "DEFAULT_QUANTUM_SPEED = 200000"

definition calculateDistance :: "real Position \<Rightarrow> real Position \<Rightarrow> real" where
  "calculateDistance pos1 pos2 =
     (let dx = x pos2 - x pos1; dy = y pos2 - y pos1; dz = z pos2 - z pos1
      in sqrt (dx * dx + dy * dy + dz * dz))"

definition findAlertsInRadius :: "real Position \<Rightarrow> RouteAlert list \<Rightarrow> real \<Rightarrow> RouteAlert list"
  where
  "findAlertsInRadius pos alerts radius =
     filter (\<lambda>alert. calculateDistance pos (loc_position (location alert)) \<le> radius) alerts"

definition calculateWaypointSafety :: "RouteAlert list \<Rightarrow> real" where
  "calculateWaypointSafety alerts =
     (if length alerts = 0 then 100
      else
        let avgAlertSafety =
              foldl (\<lambda>sum alert. sum + safetyScore alert) 0 alerts / real (length alerts);
            alertCountFactor = max 0 (1 - (real (length alerts) * (1 / 10)))
        in avgAlertSafety * alertCountFactor)"

text \<open>\<^verbatim>\<open>ship?.quantumSpeed || DEFAULT_QUANTUM_SPEED\<close>: no ship and the speed zero are falsy.\<close>

definition quantumSpeedOf :: "ShipSpecification option \<Rightarrow> real" where
  "quantumSpeedOf ship =
     (case ship of
        None \<Rightarrow> DEFAULT_QUANTUM_SPEED
      | Some s \<Rightarrow> if quantumSpeed s = 0 then DEFAULT_QUANTUM_SPEED else quantumSpeed s)"

text \<open>
  \<^verbatim>\<open>planRoute(stantonData, startObjectId, endObjectId, activeAlerts, ship?)\<close>. The two id
  parameters are \<open>startId\<close> and \<open>endId\<close> here, their names being fields of \<^verbatim>\<open>RoutePlan\<close>.
  An absent key reads as \<^verbatim>\<open>undefined\<close>; a throw is \<open>Inl\<close>.
\<close>

definition planRoute ::
  "StantonSystem \<Rightarrow> string \<Rightarrow> string \<Rightarrow> RouteAlert list \<Rightarrow> ShipSpecification option
   \<Rightarrow> error + RoutePlan" where
  "planRoute stantonData startId endId activeAlerts ship =
     (case (map_of stantonData startId, map_of stantonData endId) of
        (Some startObject, Some endObject) \<Rightarrow>
          (let dist = calculateDistance (position startObject) (position endObject);
               time = dist / quantumSpeedOf ship;
               fuel = (case ship of
                         Some s \<Rightarrow> dist * fuelConsumption s / 1000000
                       | None \<Rightarrow> 0);
               midPoint =
                 \<lparr>x = (x (position startObject) + x (position endObject)) / 2,
                  y = (y (position startObject) + y (position endObject)) / 2,
                  z = (z (position startObject) + z (position endObject)) / 2\<rparr>;
               alertRadius = 1000000;
               startAlerts = findAlertsInRadius (position startObject) activeAlerts alertRadius;
               midAlerts = findAlertsInRadius midPoint activeAlerts alertRadius;
               endAlerts = findAlertsInRadius (position endObject) activeAlerts alertRadius;
               wps =
                 [\<lparr>objectId = startId, wp_position = position startObject, distance = 0,
                   timeFromPrevious = 0, nearbyAlerts = startAlerts,
                   wp_safetyScore = calculateWaypointSafety startAlerts\<rparr>,
                  \<lparr>objectId = ''midpoint'', wp_position = midPoint, distance = dist / 2,
                   timeFromPrevious = time / 2, nearbyAlerts = midAlerts,
                   wp_safetyScore = calculateWaypointSafety midAlerts\<rparr>,
                  \<lparr>objectId = endId, wp_position = position endObject, distance = dist / 2,
                   timeFromPrevious = time / 2, nearbyAlerts = endAlerts,
                   wp_safetyScore = calculateWaypointSafety endAlerts\<rparr>];
               overall = foldl (\<lambda>sum wp. sum + wp_safetyScore wp) 0 wps / real (length wps)
           in Inr \<lparr>startObjectId = startId, endObjectId = endId, waypoints = wps,
                   totalDistance = dist, totalTime = time, fuelRequired = fuel,
                   overallSafetyScore = overall\<rparr>)
      | _ \<Rightarrow> Inl ObjectNotFound)"

text \<open>
  The candidate loop of \<^verbatim>\<open>findAlternativeRoutes\<close> with its accumulator
  \<^verbatim>\<open>alternativeRoutes\<close>; a throwing \<^verbatim>\<open>planRoute\<close> ends it with the error.
\<close>

fun alternativeLoop ::
  "StantonSystem \<Rightarrow> string \<Rightarrow> string \<Rightarrow> RouteAlert list \<Rightarrow> nat \<Rightarrow> RoutePlan
   \<Rightarrow> real CelestialObject list \<Rightarrow> RoutePlan list \<Rightarrow> error + RoutePlan list" where
  "alternativeLoop stantonData startId endId activeAlerts maxAlternatives directRoute []
     alternativeRoutes = Inr alternativeRoutes"
| "alternativeLoop stantonData startId endId activeAlerts maxAlternatives directRoute
     (waypoint # candidates) alternativeRoutes =
     (if length alternativeRoutes \<ge> maxAlternatives then Inr alternativeRoutes
      else
        case planRoute stantonData startId (name waypoint) activeAlerts None of
          Inl e \<Rightarrow> Inl e
        | Inr routeToWaypoint \<Rightarrow>
            (case planRoute stantonData (name waypoint) endId activeAlerts None of
               Inl e \<Rightarrow> Inl e
             | Inr routeFromWaypoint \<Rightarrow>
                 (let combinedRoute =
                        \<lparr>startObjectId = startId, endObjectId = endId,
                         waypoints = butlast (waypoints routeToWaypoint)
                                     @ waypoints routeFromWaypoint,
                         totalDistance = totalDistance routeToWaypoint
                                         + totalDistance routeFromWaypoint,
                         totalTime = totalTime routeToWaypoint + totalTime routeFromWaypoint,
                         fuelRequired = fuelRequired routeToWaypoint
                                        + fuelRequired routeFromWaypoint,
                         overallSafetyScore =
                           (overallSafetyScore routeToWaypoint
                            + overallSafetyScore routeFromWaypoint) / 2\<rparr>
                  in alternativeLoop stantonData startId endId activeAlerts maxAlternatives
                       directRoute candidates
                       (if overallSafetyScore combinedRoute > overallSafetyScore directRoute + 5
                        then alternativeRoutes @ [combinedRoute]
                        else alternativeRoutes))))"

text \<open>
  \<^verbatim>\<open>findAlternativeRoutes(stantonData, startObjectId, endObjectId, activeAlerts,
  maxAlternatives = 3)\<close>; \<^verbatim>\<open>maxAlternatives\<close> is a count. \<^verbatim>\<open>Array.prototype.sort\<close> is stable,
  and so is \<^const>\<open>sort_key\<close>; the comparator \<^verbatim>\<open>b.overallSafetyScore - a.overallSafetyScore\<close>
  orders by the negated score.
\<close>

definition findAlternativeRoutes ::
  "StantonSystem \<Rightarrow> string \<Rightarrow> string \<Rightarrow> RouteAlert list \<Rightarrow> nat \<Rightarrow> error + RoutePlan list"
  where
  "findAlternativeRoutes stantonData startId endId activeAlerts maxAlternatives =
     (case planRoute stantonData startId endId activeAlerts None of
        Inl e \<Rightarrow> Inl e
      | Inr directRoute \<Rightarrow>
          if overallSafetyScore directRoute \<ge> 90 then Inr [directRoute]
          else
            (let waypointCandidates =
                   filter (\<lambda>obj. name obj \<noteq> startId \<and> name obj \<noteq> endId)
                     (filter (\<lambda>obj. type obj = ''LagrangePoint'' \<or> type obj = ''Station''
                                     \<or> parent obj = ''stantonstar'')
                        (map snd stantonData))
             in case alternativeLoop stantonData startId endId activeAlerts maxAlternatives
                       directRoute waypointCandidates [] of
                  Inl e \<Rightarrow> Inl e
                | Inr alternativeRoutes \<Rightarrow>
                    Inr (sort_key (\<lambda>r. - overallSafetyScore r)
                           (directRoute # alternativeRoutes))))"

section \<open>Notions used by the claims\<close>

subsection \<open>The classifier as a table\<close>

text \<open>
  The keyword list of the specification, in its priority order, each keyword with the
  type it stands for.
\<close>

definition keywordPriority :: "(string \<times> ObjectType) list" where
  "keywordPriority =
     [(''jumppoint'', JumpPoint), (''lagrange'', LagrangePoint), (''commarray'', CommArray),
      (''star'', Star), (''planet'', Planet), (''moon'', Moon), (''station'', Station),
      (''outpost'', Outpost), (''reststop'', RestStop), (''landingzone'', LandingZone),
      (''orbitmarker'', OrbitMarker)]"

text \<open>The types whose test also looks at the payload's \<^verbatim>\<open>type\<close> field.\<close>

definition consultsPayload :: "ObjectType \<Rightarrow> bool" where
  "consultsPayload t =
     (t \<in> set [Planet, Moon, Station, Outpost, RestStop, LandingZone, OrbitMarker])"

definition keywordTest :: "string \<Rightarrow> RawData \<Rightarrow> string \<times> ObjectType \<Rightarrow> bool" where
  "keywordTest ident data entry =
     (includesStr (toLowerCase ident) (fst entry)
      \<or> (consultsPayload (snd entry) \<and> raw_type data = Some (enumValue (snd entry))))"

text \<open>First test that succeeds wins; with none, the payload's type, else Generic.\<close>

definition classifySpec :: "string \<Rightarrow> RawData \<Rightarrow> string" where
  "classifySpec ident data =
     (case find (keywordTest ident data) keywordPriority of
        Some entry \<Rightarrow> enumValue (snd entry)
      | None \<Rightarrow> orStr (raw_type data) (enumValue Generic))"

subsection \<open>Inference and construction\<close>

text \<open>The record the inference pass synthesizes for a parent id, if the id has the pattern.\<close>

definition inferredFor :: "string \<Rightarrow> RawData option" where
  "inferredFor parentId =
     (case matchLagrange parentId of
        Some (planetNumber, lagrangeNumber) \<Rightarrow>
          Some (inferredLagrangePoint parentId planetNumber lagrangeNumber)
      | None \<Rightarrow> None)"

text \<open>The entry of the by-id map that the first pass makes from an entry of the records.\<close>

definition objectOf :: "string \<times> RawData \<Rightarrow> string \<times> jsnum CelestialObject" where
  "objectOf entry = (fst entry, createCelestialObject (fst entry) (snd entry))"

subsection \<open>Parent chains\<close>

text \<open>
  A parent map sends the id of each object to the id of its parent. \<open>reaches pm target
  hops start\<close>: following the parent map from \<open>start\<close> arrives at \<open>target\<close> after at most
  \<open>hops\<close> steps, every step but the last resolving.
\<close>

fun reaches :: "(string \<Rightarrow> string option) \<Rightarrow> string \<Rightarrow> nat \<Rightarrow> string \<Rightarrow> bool" where
  "reaches pm target 0 start = (start = target)"
| "reaches pm target (Suc hops) start =
     (start = target
      \<or> (case pm start of None \<Rightarrow> False | Some p \<Rightarrow> reaches pm target hops p))"

fun nthAncestor :: "(string \<Rightarrow> string option) \<Rightarrow> nat \<Rightarrow> string \<Rightarrow> string option" where
  "nthAncestor pm 0 k = Some k"
| "nthAncestor pm (Suc i) k = (case pm k of None \<Rightarrow> None | Some p \<Rightarrow> nthAncestor pm i p)"

definition recordParents :: "RawData dict \<Rightarrow> string \<Rightarrow> string option" where
  "recordParents records k = map_option (\<lambda>d. orStr (raw_parent d) []) (map_of records k)"

definition objectParents :: "jsnum CelestialObject dict \<Rightarrow> string \<Rightarrow> string option" where
  "objectParents byId k = map_option parent (map_of byId k)"

text \<open>
  The invariant of the specification: from every object of the by-id map the parent
  chain arrives at the root within \<^verbatim>\<open>objectCount\<close> hops.
\<close>

definition chainsReachRoot :: "StarSystem \<Rightarrow> bool" where
  "chainsReachRoot sys =
     list_all (\<lambda>e. reaches (objectParents (sys_objectsById sys)) (name (star sys))
                      (length (sys_objectsById sys)) (fst e))
       (sys_objectsById sys)"

text \<open>Every record but the root's names a parent that is a key of the records.\<close>

definition parentsResolve :: "string \<Rightarrow> RawData dict \<Rightarrow> bool" where
  "parentsResolve rootId records =
     list_all (\<lambda>e. fst e = rootId \<or> map_of records (orStr (raw_parent (snd e)) []) \<noteq> None)
       records"

text \<open>No record is met again on the parent chain that starts at its own parent.\<close>

definition noOwnAncestor :: "RawData dict \<Rightarrow> bool" where
  "noOwnAncestor records =
     list_all (\<lambda>e. \<not> reaches (recordParents records) (fst e) (length records)
                        (orStr (raw_parent (snd e)) []))
       records"

subsection \<open>Absolute positions\<close>

text \<open>The componentwise sum of two positions.\<close>

definition addPosition :: "jsnum Position \<Rightarrow> jsnum Position \<Rightarrow> jsnum Position" where
  "addPosition a b = \<lparr>x = jadd (x a) (x b), y = jadd (y a) (y b), z = jadd (z a) (z b)\<rparr>"

text \<open>
  The local positions met on the parent chain that starts at \<open>parentId\<close>, up to the first
  parent id that is empty or has no object; \<open>None\<close> when the chain is longer than \<open>hops\<close>.
\<close>

fun ancestorPositions ::
  "jsnum CelestialObject dict \<Rightarrow> nat \<Rightarrow> string \<Rightarrow> jsnum Position list option" where
  "ancestorPositions byId 0 parentId =
     (if parentId = [] \<or> map_of byId parentId = None then Some [] else None)"
| "ancestorPositions byId (Suc hops) parentId =
     (if parentId = [] then Some []
      else case map_of byId parentId of
             None \<Rightarrow> Some []
           | Some p \<Rightarrow> map_option ((#) (position p)) (ancestorPositions byId hops (parent p)))"

subsection \<open>Positions and routes\<close>


text \<open>The geometric midpoint of two positions.\<close>

definition midpointOf :: "real Position \<Rightarrow> real Position \<Rightarrow> real Position" where
  "midpointOf p q = \<lparr>x = (x p + x q) / 2, y = (y p + y q) / 2, z = (z p + z q) / 2\<rparr>"

subsection \<open>Example inputs\<close>

text \<open>\<^verbatim>\<open>{sun: {parent: "root"}, stanton1: {parent: "sun"}}\<close>\<close>

definition sunRecords :: "RawData dict" where
  "sunRecords =
     [(''sun'', emptyData\<lparr>raw_parent := Some ''root''\<rparr>),
      (''stanton1'', emptyData\<lparr>raw_parent := Some ''sun''\<rparr>)]"

text \<open>\<^verbatim>\<open>{stanton3: {}, outpost_a: {parent: "stanton3_l1"}}\<close>\<close>

definition lagrangeRecords :: "RawData dict" where
  "lagrangeRecords =
     [(''stanton3'', emptyData),
      (''outpost_a'', emptyData\<lparr>raw_parent := Some ''stanton3_l1''\<rparr>)]"

text \<open>\<^verbatim>\<open>{sun: {}, a: {parent: "b"}, b: {parent: "a"}}\<close>\<close>

definition cyclicRecords :: "RawData dict" where
  "cyclicRecords =
     [(''sun'', emptyData),
      (''a'', emptyData\<lparr>raw_parent := Some ''b''\<rparr>),
      (''b'', emptyData\<lparr>raw_parent := Some ''a''\<rparr>)]"

text \<open>A star, a planet, its moon and a rest stop at a lagrange point that has no record.\<close>

definition hierarchyRecords :: "RawData dict" where
  "hierarchyRecords =
     [(''stantonstar'', emptyData\<lparr>raw_parent := Some ''root''\<rparr>),
      (''stanton1'', emptyData\<lparr>raw_parent := Some ''stantonstar''\<rparr>),
      (''stanton1_moon'', emptyData\<lparr>raw_parent := Some ''stanton1''\<rparr>),
      (''rest_stop'', emptyData\<lparr>raw_parent := Some ''stanton1_l2''\<rparr>)]"

text \<open>A star at the origin, a planet at (100, 0, 0) and its moon at (0, 10, 0).\<close>

definition chainRecords :: "RawData dict" where
  "chainRecords =
     [(''stantonstar'', emptyData\<lparr>raw_position := Some \<lparr>x = Fin 0, y = Fin 0, z = Fin 0\<rparr>\<rparr>),
      (''stanton1'', emptyData\<lparr>raw_parent := Some ''stantonstar'',
                               raw_position := Some \<lparr>x = Fin 100, y = Fin 0, z = Fin 0\<rparr>\<rparr>),
      (''stanton1_moon'', emptyData\<lparr>raw_parent := Some ''stanton1'',
                               raw_position := Some \<lparr>x = Fin 0, y = Fin 10, z = Fin 0\<rparr>\<rparr>)]"



text \<open>An object of the route planner's data with the given name, parent, type and position.\<close>

definition stantonObject ::
  "string \<Rightarrow> string \<Rightarrow> string \<Rightarrow> real Position \<Rightarrow> real CelestialObject" where
  "stantonObject ident parentId typeName pos =
     \<lparr>name = ident, display_name = ident, parent = parentId, type = typeName,
      position = pos,
      rotation = \<lparr>rot_w = 1, rot_x = 0, rot_y = 0, rot_z = 0\<rparr>,
      size = 0, arrivalRadius = 0, obstructionRadius = 0, atmoHeight = 0,
      system_entity_name = ident\<rparr>"

text \<open>Two planets 1,000,000 units apart.\<close>

definition routeSystem :: StantonSystem where
  "routeSystem =
     [(''a'', stantonObject ''a'' ''stantonstar'' ''Planet'' \<lparr>x = 0, y = 0, z = 0\<rparr>),
      (''b'', stantonObject ''b'' ''stantonstar'' ''Planet'' \<lparr>x = 1000000, y = 0, z = 0\<rparr>)]"

text \<open>The two planets and a station stored under the key \<^verbatim>\<open>c\<close> whose \<^verbatim>\<open>name\<close> is \<^verbatim>\<open>ghost\<close>.\<close>

definition ghostSystem :: StantonSystem where
  "ghostSystem =
     routeSystem
     @ [(''c'', stantonObject ''ghost'' ''stantonstar'' ''Station'' \<lparr>x = 0, y = 5000000, z = 0\<rparr>)]"

text \<open>The two planets and a station whose \<^verbatim>\<open>name\<close> is its key.\<close>

definition detourSystem :: StantonSystem where
  "detourSystem =
     routeSystem
     @ [(''c'', stantonObject ''c'' ''stantonstar'' ''Station'' \<lparr>x = 0, y = 5000000, z = 0\<rparr>)]"

text \<open>A ship without a quantum drive.\<close>

definition stalledShip :: ShipSpecification where
  "stalledShip =
     \<lparr>ship_id = ''snub'', ship_name = ''Snub'', manufacturer = ''None'', ship_size = 1,
      fuelCapacity = 0, fuelConsumption = 0, quantumSpeed = 0, scmSpeed = 200,
      cargoCapacity = 0\<rparr>"

text \<open>An alert halfway between the two planets.\<close>

definition nearAlert :: RouteAlert where
  "nearAlert =
     \<lparr>alert_id = ''alert_1'',
      location = \<lparr>loc_position = \<lparr>x = 500000, y = 0, z = 0\<rparr>, regionId = ''stanton''\<rparr>,
      alertType = pirate, createdBy = ''user'', createdAt = 0, expiresAt = 7200000,
      confirmations = 1, disputes = 0, shardId = ''shard'', safetyScore = 20\<rparr>"

section \<open>Properties of the alert score\<close>

lemma default_score_votes:
  assumes "0 < c + d"
  shows "calculateSafetyScore_default c d = min 100 (130 - 100 * (real c / real (c + d)))"
proof -
  define r where "r = real c / real (c + d)"
  have r1: "r \<le> 1"
    using assms unfolding r_def by (simp add: divide_le_eq)
  have raw: "100 - (r * 100 * (7 / 10)) + ((1 - r) * 100 * (3 / 10)) = 130 - 100 * r"
    by (simp add: algebra_simps)
  have pos: "max 0 (min 100 (130 - 100 * r)) = min 100 (130 - 100 * r)"
    using r1 by simp
  have "calculateSafetyScore_default c d
        = max 0 (min 100 (100 - (r * 100 * (7 / 10)) + ((1 - r) * 100 * (3 / 10))))"
    using assms unfolding calculateSafetyScore_default_def calculateSafetyScore_def Let_def r_def
    by simp
  also have "\<dots> = min 100 (130 - 100 * r)"
    unfolding raw by (rule pos)
  finally show ?thesis
    unfolding r_def .
qed

lemma ratio_mono:
  "real c / real (c + d) \<le> real (Suc c) / real (Suc c + d)"
proof (cases "c + d = 0")
  case True
  then show ?thesis by simp
next
  case False
  then have "0 < c + d" by simp
  then have p: "0 < real (c + d)"
    by (simp only: of_nat_0_less_iff)
  have q: "0 < real (Suc c + d)"
    by (simp only: of_nat_0_less_iff)
  have "c * (Suc c + d) \<le> Suc c * (c + d)"
    by simp
  then have "real (c * (Suc c + d)) \<le> real (Suc c * (c + d))"
    by (simp only: of_nat_le_iff)
  then have "real c * real (Suc c + d) \<le> real (Suc c) * real (c + d)"
    by (simp only: of_nat_mult)
  then show ?thesis
    using p q by (simp only: frac_le_eq divide_le_eq) (simp add: field_simps)
qed

text \<open>
  C10. Under the default weights the score never rises when one more confirmation is
  added at a fixed dispute count, the score without votes is 50, and every score lies
  between 0 and 100.
\<close>

theorem C10_default_score_antitone:
  "calculateSafetyScore_default (c + 1) d \<le> calculateSafetyScore_default c d
   \<and> calculateSafetyScore_default 0 0 = 50
   \<and> 0 \<le> calculateSafetyScore_default c d
   \<and> calculateSafetyScore_default c d \<le> 100"
proof -
  have zero: "calculateSafetyScore_default 0 0 = 50"
    by (simp add: calculateSafetyScore_default_def calculateSafetyScore_def)
  have range: "0 \<le> calculateSafetyScore_default c d \<and> calculateSafetyScore_default c d \<le> 100"
    by (simp add: calculateSafetyScore_default_def calculateSafetyScore_def Let_def)
  have step: "calculateSafetyScore_default (c + 1) d \<le> calculateSafetyScore_default c d"
  proof (cases "c + d = 0")
    case True
    then have c: "c = 0" and d: "d = 0" by simp_all
    have "calculateSafetyScore_default 1 0 = 30"
      using default_score_votes [of 1 0] by simp
    with zero c d show ?thesis by simp
  next
    case False
    then have v: "0 < c + d" and v': "0 < Suc c + d" by simp_all
    have "130 - 100 * (real (Suc c) / real (Suc c + d)) \<le> 130 - 100 * (real c / real (c + d))"
      using ratio_mono [of c d] by linarith
    then have "min 100 (130 - 100 * (real (Suc c) / real (Suc c + d)))
               \<le> min 100 (130 - 100 * (real c / real (c + d)))"
      by (rule min.mono [OF order_refl])
    then show ?thesis
      using default_score_votes [OF v] default_score_votes [OF v'] by simp
  qed
  from step zero range show ?thesis by blast
qed

section \<open>The inference pass\<close>

lemma set_setAdd: "set (setAdd s v) = insert v (set s)"
  by (auto simp: setAdd_def)

lemma set_referenced_fold:
  "set (foldl (\<lambda>s d. case raw_parent d of None \<Rightarrow> s
                       | Some p \<Rightarrow> if p \<noteq> [] then setAdd s p else s) acc ds)
   = set acc \<union> {p. p \<noteq> [] \<and> (\<exists>d \<in> set ds. raw_parent d = Some p)}"
  by (induction ds arbitrary: acc) (auto simp: set_setAdd split: option.splits)

lemma referencedParents_iff:
  "p \<in> set (referencedParents data)
   \<longleftrightarrow> p \<noteq> [] \<and> (\<exists>e \<in> set data. raw_parent (snd e) = Some p)"
  by (auto simp: referencedParents_def set_referenced_fold)

lemma map_of_inferStep:
  "map_of (inferStep data acc p) q =
     (if q = p \<and> map_of data p = None \<and> inferredFor p \<noteq> None then inferredFor p
      else map_of acc q)"
  by (auto simp: inferStep_def inferredFor_def update_conv' split: option.splits)

lemma map_of_infer_fold:
  "map_of (foldl (inferStep data) acc ps) q =
     (if q \<in> set ps \<and> map_of data q = None \<and> inferredFor q \<noteq> None then inferredFor q
      else map_of acc q)"
  by (induction ps arbitrary: acc) (auto simp: map_of_inferStep)

lemma distinct_inferStep:
  "distinct (map fst acc) \<Longrightarrow> distinct (map fst (inferStep data acc p))"
  by (auto simp: inferStep_def distinct_update split: option.splits)

lemma distinct_infer_fold:
  "distinct (map fst acc) \<Longrightarrow> distinct (map fst (foldl (inferStep data) acc ps))"
  by (induction ps arbitrary: acc) (auto simp: distinct_inferStep)

lemma map_of_update_fold:
  "distinct (map fst inferred) \<Longrightarrow>
   map_of (foldl (\<lambda>sd (ident, d). AList.update ident d sd) data inferred) q =
     (case map_of inferred q of Some v \<Rightarrow> Some v | None \<Rightarrow> map_of data q)"
proof (induction inferred arbitrary: data)
  case Nil
  then show ?case by simp
next
  case (Cons e inferred)
  obtain k v where e: "e = (k, v)" by (cases e)
  from Cons.prems e have k: "map_of inferred k = None" and d: "distinct (map fst inferred)"
    by (auto simp: map_of_eq_None_iff)
  show ?case
    using Cons.IH [OF d, of "AList.update k v data"] k
    by (auto simp: e update_conv' split: option.splits)
qed

lemma distinct_update_fold:
  "distinct (map fst data) \<Longrightarrow>
   distinct (map fst (foldl (\<lambda>sd (ident, d). AList.update ident d sd) data inferred))"
  by (induction inferred arbitrary: data) (auto simp: distinct_update)

lemma createInferredObjects_lookup:
  "map_of (createInferredObjects data) q =
     (if q \<in> set (referencedParents data) \<and> map_of data q = None \<and> inferredFor q \<noteq> None
      then inferredFor q else map_of data q)"
proof -
  have d: "distinct (map fst (foldl (inferStep data) [] (referencedParents data)))"
    by (rule distinct_infer_fold) simp
  show ?thesis
    unfolding createInferredObjects_def Let_def map_of_update_fold [OF d] map_of_infer_fold
    by (auto split: option.splits)
qed

lemma createInferredObjects_distinct:
  "distinct (map fst data) \<Longrightarrow> distinct (map fst (createInferredObjects data))"
  unfolding createInferredObjects_def Let_def by (rule distinct_update_fold)

section \<open>The by-id map of a built system\<close>

lemma update_fresh:
  "k \<notin> set (map fst al) \<Longrightarrow> AList.update k v al = al @ [(k, v)]"
  by (induction al) auto

lemma objectsById_indexObject:
  "objectsById (indexObject svc entry)
   = AList.update (fst entry) (createCelestialObject (fst entry) (snd entry)) (objectsById svc)"
  by (simp add: indexObject_def Let_def)

lemma objectsById_index_fold:
  "distinct (map fst (objectsById svc) @ map fst es) \<Longrightarrow>
   objectsById (foldl indexObject svc es) = objectsById svc @ map objectOf es"
proof (induction es arbitrary: svc)
  case Nil
  then show ?case by simp
next
  case (Cons e es)
  from Cons.prems have fresh: "fst e \<notin> set (map fst (objectsById svc))"
    by auto
  have step: "objectsById (indexObject svc e) = objectsById svc @ [objectOf e]"
    unfolding objectsById_indexObject objectOf_def by (rule update_fresh [OF fresh])
  have "distinct (map fst (objectsById (indexObject svc e)) @ map fst es)"
    using Cons.prems by (auto simp: step objectOf_def)
  from Cons.IH [OF this] show ?case
    by (simp add: step)
qed

lemma other_fields_indexObject:
  "systemData (indexObject svc entry) = systemData svc"
  "starSystem (indexObject svc entry) = starSystem svc"
  by (simp_all add: indexObject_def Let_def)

lemma loadFromObject_built:
  assumes built: "loadFromObject svc data = Some (Inr (sys, svc'))"
    and keys: "distinct (map fst data)"
  shows "sys_objectsById sys = map objectOf (createInferredObjects data)"
    and "objectsById svc' = sys_objectsById sys"
    and "starSystem svc' = Some sys"
    and "findStar (sys_objectsByType sys) (sys_objectsById sys) = Some (star sys)"
proof -
  let ?data1 = "createInferredObjects data"
  let ?start = "svc\<lparr>systemData := Some data, objectsById := [], objectsByType := [],
                      objectsByParent := [], systemData := Some ?data1\<rparr>"
  let ?indexed = "foldl indexObject ?start ?data1"
  have d1: "distinct (map fst (objectsById ?start) @ map fst ?data1)"
    using createInferredObjects_distinct [OF keys] by simp
  have byId: "objectsById ?indexed = map objectOf ?data1"
    using objectsById_index_fold [OF d1] by simp
  from built obtain st where
    st: "findStar (objectsByType ?indexed) (objectsById ?indexed) = Some st"
    and sys: "sys = \<lparr>sys_name = ''Stanton'', star = st, children = [],
                      sys_objectsById = objectsById ?indexed,
                      sys_objectsByType = objectsByType ?indexed\<rparr>"
    and svc': "svc' = ?indexed\<lparr>systemData := Some (fixParentChildRelationships ?data1),
                                 starSystem := Some sys\<rparr>"
    by (auto simp: loadFromObject_def processSystemData_def Let_def split: option.splits)
  show "sys_objectsById sys = map objectOf (createInferredObjects data)"
    using sys byId by simp
  show "objectsById svc' = sys_objectsById sys"
    using sys svc' by simp
  show "starSystem svc' = Some sys"
    using svc' by simp
  show "findStar (sys_objectsByType sys) (sys_objectsById sys) = Some (star sys)"
    using sys st by simp
qed

section \<open>Parent chains in a finite parent map\<close>

lemma reaches_iff_nthAncestor:
  "reaches pm target hops start \<longleftrightarrow> (\<exists>i \<le> hops. nthAncestor pm i start = Some target)"
proof (induction hops arbitrary: start)
  case 0
  then show ?case by auto
next
  case (Suc hops)
  show ?case
  proof
    assume "reaches pm target (Suc hops) start"
    then consider "start = target"
      | p where "pm start = Some p" "reaches pm target hops p"
      by (auto split: option.splits)
    then show "\<exists>i \<le> Suc hops. nthAncestor pm i start = Some target"
    proof cases
      case 1
      then have "nthAncestor pm 0 start = Some target" by simp
      then show ?thesis by blast
    next
      case 2
      then obtain i where "i \<le> hops" "nthAncestor pm i p = Some target"
        using Suc.IH by blast
      with 2 have "Suc i \<le> Suc hops" "nthAncestor pm (Suc i) start = Some target"
        by simp_all
      then show ?thesis by blast
    qed
  next
    assume "\<exists>i \<le> Suc hops. nthAncestor pm i start = Some target"
    then obtain i where i: "i \<le> Suc hops" "nthAncestor pm i start = Some target"
      by blast
    show "reaches pm target (Suc hops) start"
    proof (cases i)
      case 0
      with i show ?thesis by simp
    next
      case (Suc j)
      with i obtain p where p: "pm start = Some p" "nthAncestor pm j p = Some target"
        by (auto split: option.splits)
      from Suc i have "j \<le> hops" by simp
      with p Suc.IH have "reaches pm target hops p" by blast
      with p show ?thesis by simp
    qed
  qed
qed

lemma nthAncestor_add:
  "nthAncestor pm (i + j) k =
     (case nthAncestor pm i k of None \<Rightarrow> None | Some m \<Rightarrow> nthAncestor pm j m)"
  by (induction i arbitrary: k) (auto split: option.splits)

lemma chain_reaches_root:
  fixes pm :: "string \<Rightarrow> string option"
  assumes fin: "finite (dom pm)" and card: "card (dom pm) \<le> n"
    and res: "\<And>k p. pm k = Some p \<Longrightarrow> k \<noteq> r \<Longrightarrow> pm p \<noteq> None"
    and acyc: "\<And>k p. pm k = Some p \<Longrightarrow> \<not> reaches pm k n p"
    and k0: "pm k0 \<noteq> None"
  shows "reaches pm r n k0"
proof (rule ccontr)
  assume no: "\<not> reaches pm r n k0"
  have away: "nthAncestor pm i k0 \<noteq> Some r" if "i \<le> n" for i
    using no that unfolding reaches_iff_nthAncestor by blast
  have inside: "\<exists>a. nthAncestor pm i k0 = Some a \<and> pm a \<noteq> None" if "i \<le> n" for i
    using that
  proof (induction i)
    case 0
    then show ?case using k0 by simp
  next
    case (Suc i)
    then obtain a where a: "nthAncestor pm i k0 = Some a" "pm a \<noteq> None"
      by auto
    from Suc.prems away [of i] a have ar: "a \<noteq> r" by auto
    from a obtain p where p: "pm a = Some p" by auto
    have "nthAncestor pm (i + 1) k0 = nthAncestor pm 1 a"
      using a by (simp only: nthAncestor_add) simp
    then have "nthAncestor pm (Suc i) k0 = Some p"
      using p by simp
    moreover have "pm p \<noteq> None"
      using res [OF p ar] .
    ultimately show ?case by blast
  qed
  define f where "f i = the (nthAncestor pm i k0)" for i
  have fdom: "f i \<in> dom pm" and fsome: "nthAncestor pm i k0 = Some (f i)" if "i \<le> n" for i
    using inside [OF that] by (auto simp: f_def)
  have "f ` {0..n} \<subseteq> dom pm"
  proof (rule image_subsetI)
    fix i
    assume "i \<in> {0..n}"
    then have "i \<le> n" by simp
    then show "f i \<in> dom pm" by (rule fdom)
  qed
  then have "card (f ` {0..n}) \<le> card (dom pm)"
    using fin by (simp add: card_mono)
  then have "card (f ` {0..n}) < card {0..n}"
    using card by simp
  then have "\<not> inj_on f {0..n}"
    using pigeonhole by blast
  then obtain i j where ij: "i \<le> n" "j \<le> n" "i \<noteq> j" "f i = f j"
    by (auto simp: inj_on_def)
  have cyc: False if lt: "i < j" and le: "j \<le> n" and eq: "f i = f j" for i j
  proof -
    from lt le have i: "i \<le> n" by simp
    obtain m where m: "j = i + Suc m" "m \<le> n"
      using lt le by (auto simp: less_iff_Suc_add)
    obtain p where p: "pm (f i) = Some p"
      using fdom [OF i] by auto
    have "nthAncestor pm j k0 = nthAncestor pm (Suc m) (f i)"
      unfolding m(1) nthAncestor_add using fsome [OF i] by simp
    then have "nthAncestor pm m p = Some (f i)"
      using fsome [OF le] p eq by simp
    then have "reaches pm (f i) n p"
      unfolding reaches_iff_nthAncestor using m(2) by blast
    with acyc [OF p] show False by blast
  qed
  from ij show False
    using cyc [of i j] cyc [of j i] by (cases "i < j") auto
qed

section \<open>The hierarchy invariant\<close>

lemma parent_createCelestialObject:
  "parent (createCelestialObject k d) = orStr (raw_parent d) []"
  by (simp add: createCelestialObject_def)

lemma map_of_map_objectOf:
  "map_of (map objectOf records) k = map_option (createCelestialObject k) (map_of records k)"
  by (induction records) (auto simp: objectOf_def)

lemma objectParents_built:
  "objectParents (map objectOf records) = recordParents records"
  by (rule ext)
     (simp add: objectParents_def recordParents_def map_of_map_objectOf option.map_comp
                comp_def parent_createCelestialObject)

text \<open>
  C1 (as amended). When the build succeeds and, in the records after the inference pass,
  every record but the root's names a parent that has a record and no record is its own
  ancestor, then from every object of the by-id map the parent chain arrives at the root
  within \<^verbatim>\<open>objectCount\<close> hops. The build has no step that finds or removes a cycle.
\<close>

theorem C1_chains_reach_root:
  assumes built: "loadFromObject svc data = Some (Inr (sys, svc'))"
    and keys: "distinct (map fst data)"
    and res: "parentsResolve (name (star sys)) (createInferredObjects data)"
    and acyc: "noOwnAncestor (createInferredObjects data)"
  shows "chainsReachRoot sys"
proof -
  define records where "records = createInferredObjects data"
  define pm where "pm = recordParents records"
  have byId: "sys_objectsById sys = map objectOf records"
    unfolding records_def by (rule loadFromObject_built(1) [OF built keys])
  have "dom pm = dom (map_of records)"
    by (auto simp: pm_def recordParents_def dom_def)
  then have dom: "dom pm = set (map fst records)"
    by (simp add: dom_map_of_conv_image_fst)
  have fin: "finite (dom pm)"
    by (simp add: dom)
  have card: "card (dom pm) \<le> length records"
    unfolding dom using card_length [of "map fst records"] by simp
  have entry: "\<exists>d. (k, d) \<in> set records \<and> p = orStr (raw_parent d) []"
    if "pm k = Some p" for k p
    using that by (auto simp: pm_def recordParents_def dest: map_of_SomeD)
  have r: "pm p \<noteq> None" if kp: "pm k = Some p" and nr: "k \<noteq> name (star sys)" for k p
  proof -
    from entry [OF kp] obtain d where d: "(k, d) \<in> set records" "p = orStr (raw_parent d) []"
      by blast
    from res d nr have "map_of records p \<noteq> None"
      by (auto simp: parentsResolve_def records_def list_all_iff)
    then show ?thesis
      by (simp add: pm_def recordParents_def)
  qed
  have a: "\<not> reaches pm k (length records) p" if kp: "pm k = Some p" for k p
  proof -
    from entry [OF kp] obtain d where d: "(k, d) \<in> set records" "p = orStr (raw_parent d) []"
      by blast
    from acyc d show ?thesis
      by (auto simp: noOwnAncestor_def records_def pm_def list_all_iff)
  qed
  have "reaches pm (name (star sys)) (length records) k" if "k \<in> set (map fst records)" for k
  proof -
    from that dom have "pm k \<noteq> None" by blast
    from chain_reaches_root [of pm "length records" "name (star sys)" k, OF fin card r a this]
    show ?thesis .
  qed
  then show ?thesis
    by (auto simp: chainsReachRoot_def byId objectParents_built pm_def list_all_iff objectOf_def)
qed

text \<open>
  C1 as stated fails: the build of three records, two of them each other's parent,
  succeeds with the root \<^verbatim>\<open>sun\<close>, and the chain from \<^verbatim>\<open>a\<close> never arrives there.
\<close>

theorem C1_counterexample:
  "(case loadFromObject newService cyclicRecords of
      Some (Inr (sys, svc')) \<Rightarrow>
        name (star sys) = ''sun'' \<and> map_of (sys_objectsById sys) ''a'' \<noteq> None
        \<and> \<not> reaches (objectParents (sys_objectsById sys)) (name (star sys))
               (length (sys_objectsById sys)) ''a''
        \<and> \<not> chainsReachRoot sys
    | _ \<Rightarrow> False)"
  by code_simp

text \<open>The amended C1 at a star with a planet, a moon and an inferred lagrange point.\<close>

theorem C1_witness:
  "(case loadFromObject newService hierarchyRecords of
      Some (Inr (sys, svc')) \<Rightarrow>
        distinct (map fst hierarchyRecords)
        \<and> parentsResolve (name (star sys)) (createInferredObjects hierarchyRecords)
        \<and> noOwnAncestor (createInferredObjects hierarchyRecords)
        \<and> chainsReachRoot sys
    | _ \<Rightarrow> False)"
proof -
  have pre:
    "(case loadFromObject newService hierarchyRecords of
        Some (Inr (sys, svc')) \<Rightarrow>
          distinct (map fst hierarchyRecords)
          \<and> parentsResolve (name (star sys)) (createInferredObjects hierarchyRecords)
          \<and> noOwnAncestor (createInferredObjects hierarchyRecords)
      | _ \<Rightarrow> False)"
    by code_simp
  then obtain sys svc' where
    built: "loadFromObject newService hierarchyRecords = Some (Inr (sys, svc'))"
    and keys: "distinct (map fst hierarchyRecords)"
    and res: "parentsResolve (name (star sys)) (createInferredObjects hierarchyRecords)"
    and acyc: "noOwnAncestor (createInferredObjects hierarchyRecords)"
    by (auto split: option.splits sum.splits)
  from C1_chains_reach_root [OF built keys res acyc] have "chainsReachRoot sys" .
  with built keys res acyc show ?thesis
    by simp
qed

section \<open>Root detection\<close>

text \<open>
  C2. The build of \<^verbatim>\<open>{sun: {parent: "root"}, stanton1: {parent: "sun"}}\<close> throws
  "Star not found in the system data". The repair pass does clear the parent of the
  record \<^verbatim>\<open>sun\<close>, but the object in the by-id map was made before and keeps the parent
  \<^verbatim>\<open>root\<close>, so \<^verbatim>\<open>findStar\<close> meets no object without a parent.
\<close>

theorem C2_sun_build_fails:
  "loadFromObject newService sunRecords = Some (Inl StarNotFound)
   \<and> map_option raw_parent
         (map_of (fixParentChildRelationships (createInferredObjects sunRecords)) ''sun'')
       = Some (Some [])
   \<and> map_option parent
         (map_of (objectsById (foldl indexObject newService (createInferredObjects sunRecords)))
            ''sun'')
       = Some ''root''"
  by code_simp

section \<open>Lagrange inference\<close>

lemma matchLagrange_nonempty: "matchLagrange p = Some g \<Longrightarrow> p \<noteq> []"
  by (cases p) auto

lemma isDigit_digits: "list_all isDigit ds \<longleftrightarrow> set ds \<subseteq> set ''0123456789''"
proof -
  have "isDigit = (\<lambda>c. c \<in> set ''0123456789'')"
    by (rule ext) (rule isDigit_def)
  then show ?thesis
    by (simp only: list_all_iff subset_eq)
qed

lemma underscore_not_digit: "\<not> isDigit CHR ''_''"
  by (simp add: isDigit_def)

lemma matchLagrangeAt_pattern:
  assumes ds: "ds \<noteq> []" "list_all isDigit ds" and es: "es \<noteq> []" "list_all isDigit es"
  shows "matchLagrangeAt (''stanton'' @ ds @ ''_l'' @ es @ post)
           = Some (ds, es @ takeWhile isDigit post)"
proof -
  have digits: "\<And>c. c \<in> set ds \<Longrightarrow> isDigit c" "\<And>c. c \<in> set es \<Longrightarrow> isDigit c"
    using ds es by (simp_all add: list_all_iff)
  have t1: "takeWhile isDigit (ds @ ''_l'' @ es @ post) = ds"
    using digits(1) by (simp add: takeWhile_append2 underscore_not_digit)
  have d1: "dropWhile isDigit (ds @ ''_l'' @ es @ post) = ''_l'' @ es @ post"
    using digits(1) by (simp add: dropWhile_append2 underscore_not_digit)
  have t2: "takeWhile isDigit (es @ post) = es @ takeWhile isDigit post"
    using digits(2) by (simp add: takeWhile_append2)
  have pre: "prefix ''stanton'' (''stanton'' @ ds @ ''_l'' @ es @ post)"
    by simp
  have dr: "drop 7 (''stanton'' @ ds @ ''_l'' @ es @ post) = ds @ ''_l'' @ es @ post"
    by simp
  show ?thesis
    unfolding matchLagrangeAt_def Let_def dr t1 d1
    using ds(1) es(1) pre t2 by simp
qed

lemma matchLagrange_pattern:
  assumes ds: "ds \<noteq> []" "list_all isDigit ds" and es: "es \<noteq> []" "list_all isDigit es"
  shows "matchLagrange (''stanton'' @ ds @ ''_l'' @ es) = Some (ds, es)"
proof -
  have "matchLagrangeAt (''stanton'' @ ds @ ''_l'' @ es @ []) = Some (ds, es @ takeWhile isDigit [])"
    by (rule matchLagrangeAt_pattern [OF ds es])
  then have at: "matchLagrangeAt (CHR ''s'' # ''tanton'' @ ds @ ''_l'' @ es) = Some (ds, es)"
    by simp
  have "matchLagrange (CHR ''s'' # ''tanton'' @ ds @ ''_l'' @ es) = Some (ds, es)"
    unfolding matchLagrange.simps at by simp
  then show ?thesis by simp
qed

lemma matchLagrangeAt_sound:
  assumes "matchLagrangeAt s = Some (a, b)"
  shows "\<exists>post. s = ''stanton'' @ a @ ''_l'' @ b @ post
          \<and> a \<noteq> [] \<and> list_all isDigit a \<and> b \<noteq> [] \<and> list_all isDigit b"
proof -
  from assms have pre: "prefix ''stanton'' s"
    by (auto simp: matchLagrangeAt_def split: if_splits)
  then obtain r where s: "s = ''stanton'' @ r"
    by (auto simp: prefix_def)
  then have dr: "drop 7 s = r" by simp
  from assms pre have a: "a = takeWhile isDigit r" and ane: "a \<noteq> []"
    and p2: "prefix ''_l'' (dropWhile isDigit r)"
    unfolding matchLagrangeAt_def Let_def dr by (auto split: if_splits)
  from p2 obtain r2 where r2: "dropWhile isDigit r = ''_l'' @ r2"
    by (auto simp: prefix_def)
  then have dr2: "drop 2 (dropWhile isDigit r) = r2" by simp
  from assms pre have b: "b = takeWhile isDigit r2" and bne: "b \<noteq> []"
    unfolding matchLagrangeAt_def Let_def dr dr2 by (auto split: if_splits)
  have "r = a @ dropWhile isDigit r"
    unfolding a by simp
  also have "dropWhile isDigit r = ''_l'' @ b @ dropWhile isDigit r2"
    unfolding r2 b by simp
  finally have "s = ''stanton'' @ a @ ''_l'' @ b @ dropWhile isDigit r2"
    using s by simp
  moreover have "list_all isDigit a" "list_all isDigit b"
    unfolding a b list_all_iff by (auto dest: set_takeWhileD)
  ultimately show ?thesis
    using ane bne by blast
qed

lemma matchLagrange_sound:
  "matchLagrange p = Some (a, b) \<Longrightarrow>
   \<exists>pre post. p = pre @ ''stanton'' @ a @ ''_l'' @ b @ post
     \<and> a \<noteq> [] \<and> list_all isDigit a \<and> b \<noteq> [] \<and> list_all isDigit b"
proof (induction p)
  case Nil
  then show ?case by simp
next
  case (Cons c cs)
  show ?case
  proof (cases "matchLagrangeAt (c # cs)")
    case None
    with Cons.prems have "matchLagrange cs = Some (a, b)" by simp
    from Cons.IH [OF this] obtain pre post where
      "cs = pre @ ''stanton'' @ a @ ''_l'' @ b @ post"
      and rest: "a \<noteq> [] \<and> list_all isDigit a \<and> b \<noteq> [] \<and> list_all isDigit b"
      by blast
    then have "c # cs = (c # pre) @ ''stanton'' @ a @ ''_l'' @ b @ post" by simp
    with rest show ?thesis by blast
  next
    case (Some g)
    with Cons.prems have "matchLagrangeAt (c # cs) = Some (a, b)" by simp
    from matchLagrangeAt_sound [OF this] obtain post where
      "c # cs = [] @ ''stanton'' @ a @ ''_l'' @ b @ post"
      and rest: "a \<noteq> [] \<and> list_all isDigit a \<and> b \<noteq> [] \<and> list_all isDigit b"
      by auto
    with rest show ?thesis by blast
  qed
qed

text \<open>
  C3. Let a parent id be referred to by some record and have no record of its own.
  If it is \<^verbatim>\<open>stanton\<close>, a non-empty run of decimal digits, \<^verbatim>\<open>_l\<close> and a non-empty run of
  decimal digits, the pattern matches it with these two runs as the planet number and
  the lagrange number. If the pattern matches it, the two numbers are non-empty runs of
  decimal digits that stand in the id as \<^verbatim>\<open>stanton\<close>, planet number, \<^verbatim>\<open>_l\<close>, lagrange
  number, and the id gets a synthesized record: type LagrangePoint, parent the planet id
  \<^verbatim>\<open>stanton\<close> followed by the planet number, zero position, unit rotation, arrival radius
  and size 1000. The record is in the record set the objects are constructed from, so a
  built system has the object made from it under that id.
\<close>

theorem C3_lagrange_inferred:
  assumes ref: "(k, d) \<in> set data" "raw_parent d = Some p"
    and absent: "map_of data p = None"
  shows
    "(p = ''stanton'' @ planetDigits @ ''_l'' @ lagrangeDigits
      \<and> planetDigits \<noteq> [] \<and> set planetDigits \<subseteq> set ''0123456789''
      \<and> lagrangeDigits \<noteq> [] \<and> set lagrangeDigits \<subseteq> set ''0123456789''
      \<longrightarrow> matchLagrange p = Some (planetDigits, lagrangeDigits)
          \<and> map_of (createInferredObjects data) p
              = Some (inferredLagrangePoint p planetDigits lagrangeDigits)
          \<and> raw_parent (inferredLagrangePoint p planetDigits lagrangeDigits)
              = Some (''stanton'' @ planetDigits))
     \<and> (matchLagrange p = Some (planetNumber, lagrangeNumber)
      \<longrightarrow> (\<exists>before after.
              p = before @ ''stanton'' @ planetNumber @ ''_l'' @ lagrangeNumber @ after)
          \<and> planetNumber \<noteq> [] \<and> set planetNumber \<subseteq> set ''0123456789''
          \<and> lagrangeNumber \<noteq> [] \<and> set lagrangeNumber \<subseteq> set ''0123456789''
          \<and> map_of (createInferredObjects data) p
              = Some (inferredLagrangePoint p planetNumber lagrangeNumber)
          \<and> raw_type (inferredLagrangePoint p planetNumber lagrangeNumber)
              = Some (enumValue LagrangePoint)
          \<and> raw_parent (inferredLagrangePoint p planetNumber lagrangeNumber)
              = Some (''stanton'' @ planetNumber)
          \<and> raw_position (inferredLagrangePoint p planetNumber lagrangeNumber)
              = Some \<lparr>x = Fin 0, y = Fin 0, z = Fin 0\<rparr>
          \<and> raw_rotation (inferredLagrangePoint p planetNumber lagrangeNumber)
              = Some \<lparr>rot_w = Fin 1, rot_x = Fin 0, rot_y = Fin 0, rot_z = Fin 0\<rparr>
          \<and> raw_arrivalRadius (inferredLagrangePoint p planetNumber lagrangeNumber)
              = Some (Fin 1000)
          \<and> raw_size (inferredLagrangePoint p planetNumber lagrangeNumber) = Some (Fin 1000)
          \<and> (distinct (map fst data) \<and> loadFromObject svc data = Some (Inr (sys, svc'))
               \<longrightarrow> map_of (sys_objectsById sys) p
                     = Some (createCelestialObject p
                               (inferredLagrangePoint p planetNumber lagrangeNumber))))"
proof -
  have synth:
    "map_of (createInferredObjects data) p = Some (inferredLagrangePoint p a b)"
    if pat: "matchLagrange p = Some (a, b)" for a b
  proof -
    from pat have ne: "p \<noteq> []"
      by (rule matchLagrange_nonempty)
    from ref ne have "p \<in> set (referencedParents data)"
      unfolding referencedParents_iff by force
    moreover from pat have "inferredFor p = Some (inferredLagrangePoint p a b)"
      by (simp add: inferredFor_def)
    ultimately show ?thesis
      using absent by (simp add: createInferredObjects_lookup)
  qed
  have exact:
    "matchLagrange p = Some (planetDigits, lagrangeDigits)
     \<and> map_of (createInferredObjects data) p
         = Some (inferredLagrangePoint p planetDigits lagrangeDigits)
     \<and> raw_parent (inferredLagrangePoint p planetDigits lagrangeDigits)
         = Some (''stanton'' @ planetDigits)"
    if shape: "p = ''stanton'' @ planetDigits @ ''_l'' @ lagrangeDigits"
      and pd: "planetDigits \<noteq> []" "set planetDigits \<subseteq> set ''0123456789''"
      and ld: "lagrangeDigits \<noteq> []" "set lagrangeDigits \<subseteq> set ''0123456789''"
  proof -
    from pd(2) ld(2) have "list_all isDigit planetDigits" "list_all isDigit lagrangeDigits"
      by (simp_all only: isDigit_digits)
    from matchLagrange_pattern [OF pd(1) this(1) ld(1) this(2)]
    have m: "matchLagrange p = Some (planetDigits, lagrangeDigits)"
      unfolding shape .
    from m synth [OF m] show ?thesis
      by (simp add: inferredLagrangePoint_def)
  qed
  have general:
    "(\<exists>before after.
        p = before @ ''stanton'' @ planetNumber @ ''_l'' @ lagrangeNumber @ after)
     \<and> planetNumber \<noteq> [] \<and> set planetNumber \<subseteq> set ''0123456789''
     \<and> lagrangeNumber \<noteq> [] \<and> set lagrangeNumber \<subseteq> set ''0123456789''
     \<and> map_of (createInferredObjects data) p
         = Some (inferredLagrangePoint p planetNumber lagrangeNumber)"
    if pat: "matchLagrange p = Some (planetNumber, lagrangeNumber)"
  proof -
    from matchLagrange_sound [OF pat] obtain before after where
      sh: "p = before @ ''stanton'' @ planetNumber @ ''_l'' @ lagrangeNumber @ after"
      and n1: "planetNumber \<noteq> []" and d1: "list_all isDigit planetNumber"
      and n2: "lagrangeNumber \<noteq> []" and d2: "list_all isDigit lagrangeNumber"
      by blast
    from sh have e: "\<exists>before after.
        p = before @ ''stanton'' @ planetNumber @ ''_l'' @ lagrangeNumber @ after"
      by blast
    from d1 d2 have s1: "set planetNumber \<subseteq> set ''0123456789''"
      and s2: "set lagrangeNumber \<subseteq> set ''0123456789''"
      by (simp_all only: isDigit_digits)
    from e n1 s1 n2 s2 synth [OF pat] show ?thesis
      by (intro conjI)
  qed
  have built: "map_of (sys_objectsById sys) p
                 = Some (createCelestialObject p
                           (inferredLagrangePoint p planetNumber lagrangeNumber))"
    if "matchLagrange p = Some (planetNumber, lagrangeNumber)"
      "distinct (map fst data)" "loadFromObject svc data = Some (Inr (sys, svc'))"
    using loadFromObject_built(1) [OF that(3) that(2)] synth [OF that(1)]
    by (simp add: map_of_map_objectOf)
  have fields:
    "raw_type (inferredLagrangePoint p planetNumber lagrangeNumber)
       = Some (enumValue LagrangePoint)
     \<and> raw_parent (inferredLagrangePoint p planetNumber lagrangeNumber)
       = Some (''stanton'' @ planetNumber)
     \<and> raw_position (inferredLagrangePoint p planetNumber lagrangeNumber)
       = Some \<lparr>x = Fin 0, y = Fin 0, z = Fin 0\<rparr>
     \<and> raw_rotation (inferredLagrangePoint p planetNumber lagrangeNumber)
       = Some \<lparr>rot_w = Fin 1, rot_x = Fin 0, rot_y = Fin 0, rot_z = Fin 0\<rparr>
     \<and> raw_arrivalRadius (inferredLagrangePoint p planetNumber lagrangeNumber)
       = Some (Fin 1000)
     \<and> raw_size (inferredLagrangePoint p planetNumber lagrangeNumber) = Some (Fin 1000)"
    by (simp add: inferredLagrangePoint_def)
  have one:
    "p = ''stanton'' @ planetDigits @ ''_l'' @ lagrangeDigits
      \<and> planetDigits \<noteq> [] \<and> set planetDigits \<subseteq> set ''0123456789''
      \<and> lagrangeDigits \<noteq> [] \<and> set lagrangeDigits \<subseteq> set ''0123456789''
      \<longrightarrow> matchLagrange p = Some (planetDigits, lagrangeDigits)
          \<and> map_of (createInferredObjects data) p
              = Some (inferredLagrangePoint p planetDigits lagrangeDigits)
          \<and> raw_parent (inferredLagrangePoint p planetDigits lagrangeDigits)
              = Some (''stanton'' @ planetDigits)"
  proof (rule impI, elim conjE)
    assume "p = ''stanton'' @ planetDigits @ ''_l'' @ lagrangeDigits"
      "planetDigits \<noteq> []" "set planetDigits \<subseteq> set ''0123456789''"
      "lagrangeDigits \<noteq> []" "set lagrangeDigits \<subseteq> set ''0123456789''"
    then show "matchLagrange p = Some (planetDigits, lagrangeDigits)
          \<and> map_of (createInferredObjects data) p
              = Some (inferredLagrangePoint p planetDigits lagrangeDigits)
          \<and> raw_parent (inferredLagrangePoint p planetDigits lagrangeDigits)
              = Some (''stanton'' @ planetDigits)"
      by (rule exact)
  qed
  have two:
    "matchLagrange p = Some (planetNumber, lagrangeNumber)
      \<longrightarrow> (\<exists>before after.
              p = before @ ''stanton'' @ planetNumber @ ''_l'' @ lagrangeNumber @ after)
          \<and> planetNumber \<noteq> [] \<and> set planetNumber \<subseteq> set ''0123456789''
          \<and> lagrangeNumber \<noteq> [] \<and> set lagrangeNumber \<subseteq> set ''0123456789''
          \<and> map_of (createInferredObjects data) p
              = Some (inferredLagrangePoint p planetNumber lagrangeNumber)
          \<and> raw_type (inferredLagrangePoint p planetNumber lagrangeNumber)
              = Some (enumValue LagrangePoint)
          \<and> raw_parent (inferredLagrangePoint p planetNumber lagrangeNumber)
              = Some (''stanton'' @ planetNumber)
          \<and> raw_position (inferredLagrangePoint p planetNumber lagrangeNumber)
              = Some \<lparr>x = Fin 0, y = Fin 0, z = Fin 0\<rparr>
          \<and> raw_rotation (inferredLagrangePoint p planetNumber lagrangeNumber)
              = Some \<lparr>rot_w = Fin 1, rot_x = Fin 0, rot_y = Fin 0, rot_z = Fin 0\<rparr>
          \<and> raw_arrivalRadius (inferredLagrangePoint p planetNumber lagrangeNumber)
              = Some (Fin 1000)
          \<and> raw_size (inferredLagrangePoint p planetNumber lagrangeNumber) = Some (Fin 1000)
          \<and> (distinct (map fst data) \<and> loadFromObject svc data = Some (Inr (sys, svc'))
               \<longrightarrow> map_of (sys_objectsById sys) p
                     = Some (createCelestialObject p
                               (inferredLagrangePoint p planetNumber lagrangeNumber)))"
  proof (rule impI)
    assume pat: "matchLagrange p = Some (planetNumber, lagrangeNumber)"
    note g = general [OF pat]
    have b: "distinct (map fst data) \<and> loadFromObject svc data = Some (Inr (sys, svc'))
               \<longrightarrow> map_of (sys_objectsById sys) p
                     = Some (createCelestialObject p
                               (inferredLagrangePoint p planetNumber lagrangeNumber))"
      using built [OF pat] by (intro impI) (elim conjE)
    note g1 = g [THEN conjunct1]
      and g2 = g [THEN conjunct2, THEN conjunct1]
      and g3 = g [THEN conjunct2, THEN conjunct2, THEN conjunct1]
      and g4 = g [THEN conjunct2, THEN conjunct2, THEN conjunct2, THEN conjunct1]
      and g5 = g [THEN conjunct2, THEN conjunct2, THEN conjunct2, THEN conjunct2,
                  THEN conjunct1]
      and g6 = g [THEN conjunct2, THEN conjunct2, THEN conjunct2, THEN conjunct2,
                  THEN conjunct2]
    note f1 = fields [THEN conjunct1]
      and f2 = fields [THEN conjunct2, THEN conjunct1]
      and f3 = fields [THEN conjunct2, THEN conjunct2, THEN conjunct1]
      and f4 = fields [THEN conjunct2, THEN conjunct2, THEN conjunct2, THEN conjunct1]
      and f5 = fields [THEN conjunct2, THEN conjunct2, THEN conjunct2, THEN conjunct2,
                       THEN conjunct1]
      and f6 = fields [THEN conjunct2, THEN conjunct2, THEN conjunct2, THEN conjunct2,
                       THEN conjunct2]
    show "(\<exists>before after.
              p = before @ ''stanton'' @ planetNumber @ ''_l'' @ lagrangeNumber @ after)
          \<and> planetNumber \<noteq> [] \<and> set planetNumber \<subseteq> set ''0123456789''
          \<and> lagrangeNumber \<noteq> [] \<and> set lagrangeNumber \<subseteq> set ''0123456789''
          \<and> map_of (createInferredObjects data) p
              = Some (inferredLagrangePoint p planetNumber lagrangeNumber)
          \<and> raw_type (inferredLagrangePoint p planetNumber lagrangeNumber)
              = Some (enumValue LagrangePoint)
          \<and> raw_parent (inferredLagrangePoint p planetNumber lagrangeNumber)
              = Some (''stanton'' @ planetNumber)
          \<and> raw_position (inferredLagrangePoint p planetNumber lagrangeNumber)
              = Some \<lparr>x = Fin 0, y = Fin 0, z = Fin 0\<rparr>
          \<and> raw_rotation (inferredLagrangePoint p planetNumber lagrangeNumber)
              = Some \<lparr>rot_w = Fin 1, rot_x = Fin 0, rot_y = Fin 0, rot_z = Fin 0\<rparr>
          \<and> raw_arrivalRadius (inferredLagrangePoint p planetNumber lagrangeNumber)
              = Some (Fin 1000)
          \<and> raw_size (inferredLagrangePoint p planetNumber lagrangeNumber) = Some (Fin 1000)
          \<and> (distinct (map fst data) \<and> loadFromObject svc data = Some (Inr (sys, svc'))
               \<longrightarrow> map_of (sys_objectsById sys) p
                     = Some (createCelestialObject p
                               (inferredLagrangePoint p planetNumber lagrangeNumber)))"
      by (intro conjI g1 g2 g3 g4 g5 g6 f1 f2 f3 f4 f5 f6 b)
  qed
  from one two show ?thesis
    by (rule conjI)
qed

text \<open>
  C3 at \<^verbatim>\<open>{stanton3: {}, outpost_a: {parent: "stanton3_l1"}}\<close>: \<^verbatim>\<open>stanton3_l1\<close> has the pattern
  with the planet number 3 and the lagrange number 1, it is synthesized with the parent
  \<^verbatim>\<open>stanton3\<close>, and the build returns a system that holds it.
\<close>

theorem C3_witness:
  "(''outpost_a'', emptyData\<lparr>raw_parent := Some ''stanton3_l1''\<rparr>) \<in> set lagrangeRecords
   \<and> raw_parent (emptyData\<lparr>raw_parent := Some ''stanton3_l1''\<rparr>) = Some ''stanton3_l1''
   \<and> map_of lagrangeRecords ''stanton3_l1'' = None
   \<and> ''stanton3_l1'' = ''stanton'' @ ''3'' @ ''_l'' @ ''1''
   \<and> set ''3'' \<subseteq> set ''0123456789'' \<and> set ''1'' \<subseteq> set ''0123456789''
   \<and> matchLagrange ''stanton3_l1'' = Some (''3'', ''1'')
   \<and> map_option raw_parent (map_of (createInferredObjects lagrangeRecords) ''stanton3_l1'')
       = Some (Some ''stanton3'')
   \<and> (case loadFromObject newService lagrangeRecords of
         Some (Inr (sys, svc')) \<Rightarrow>
           distinct (map fst lagrangeRecords)
           \<and> map_option parent (map_of (sys_objectsById sys) ''stanton3_l1'') = Some ''stanton3''
       | _ \<Rightarrow> False)"
proof -
  have ref: "(''outpost_a'', emptyData\<lparr>raw_parent := Some ''stanton3_l1''\<rparr>) \<in> set lagrangeRecords"
    by (simp add: lagrangeRecords_def)
  have par: "raw_parent (emptyData\<lparr>raw_parent := Some ''stanton3_l1''\<rparr>) = Some ''stanton3_l1''"
    by simp
  have absent: "map_of lagrangeRecords ''stanton3_l1'' = None"
    by (simp add: lagrangeRecords_def)
  have shape: "''stanton3_l1'' = ''stanton'' @ ''3'' @ ''_l'' @ ''1''"
    by simp
  have digits: "''3'' \<noteq> []" "set ''3'' \<subseteq> set ''0123456789''"
    "''1'' \<noteq> []" "set ''1'' \<subseteq> set ''0123456789''"
    by simp_all
  have keys: "distinct (map fst lagrangeRecords)"
    by (simp add: lagrangeRecords_def)
  have "(case loadFromObject newService lagrangeRecords of
           Some (Inr (sys, svc')) \<Rightarrow> True | _ \<Rightarrow> False)"
    by code_simp
  then obtain sys svc' where
    built: "loadFromObject newService lagrangeRecords = Some (Inr (sys, svc'))"
    by (auto split: option.splits sum.splits)
  note c3 = C3_lagrange_inferred [OF ref par absent,
      of "''3''" "''1''" "''3''" "''1''" newService sys svc']
  from shape digits have pre:
    "''stanton3_l1'' = ''stanton'' @ ''3'' @ ''_l'' @ ''1''
      \<and> ''3'' \<noteq> [] \<and> set ''3'' \<subseteq> set ''0123456789''
      \<and> ''1'' \<noteq> [] \<and> set ''1'' \<subseteq> set ''0123456789''"
    by (intro conjI)
  from c3 [THEN conjunct1, THEN mp, OF pre]
  have pat: "matchLagrange ''stanton3_l1'' = Some (''3'', ''1'')"
    by (rule conjunct1)
  note syn = c3 [THEN conjunct2, THEN mp, OF pat]
  note rest = syn [THEN conjunct2, THEN conjunct2, THEN conjunct2, THEN conjunct2,
                   THEN conjunct2]
  note rec0 = rest [THEN conjunct1]
  note imp = rest [THEN conjunct2, THEN conjunct2, THEN conjunct2, THEN conjunct2,
                   THEN conjunct2, THEN conjunct2, THEN conjunct2]
  from keys built
  have "distinct (map fst lagrangeRecords)
        \<and> loadFromObject newService lagrangeRecords = Some (Inr (sys, svc'))"
    by (rule conjI)
  with imp
  have "map_of (sys_objectsById sys) ''stanton3_l1''
          = Some (createCelestialObject ''stanton3_l1'' (inferredLagrangePoint ''stanton3_l1'' ''3'' ''1''))"
    by (rule mp)
  then have obj: "map_option parent (map_of (sys_objectsById sys) ''stanton3_l1'') = Some ''stanton3''"
    by (simp add: parent_createCelestialObject inferredLagrangePoint_def)
  from rec0 have rec: "map_option raw_parent (map_of (createInferredObjects lagrangeRecords) ''stanton3_l1'')
       = Some (Some ''stanton3'')"
    by (simp add: inferredLagrangePoint_def)
  show ?thesis
    unfolding built using ref par absent digits pat keys obj rec
    by simp
qed

section \<open>The classifier\<close>

text \<open>
  C4 (as amended). The classifier is a function of the id and the payload. It runs
  through the keyword list in its priority order and the first test that succeeds wins;
  the tests for planet, moon, station, outpost, reststop, landingzone and orbitmarker
  succeed also when the payload's type field is that type's name, so the type field can
  decide before a later keyword is tried. When no test succeeds the result is the
  payload's type, else Generic. For a payload without a type field the first keyword
  that occurs in the lower-cased id wins.
\<close>

theorem C4_classifier_table:
  "classify ident data = classifySpec ident data
   \<and> (raw_type data = None \<longrightarrow>
        classify ident data =
          (case find (\<lambda>entry. includesStr (toLowerCase ident) (fst entry)) keywordPriority of
             Some entry \<Rightarrow> enumValue (snd entry)
           | None \<Rightarrow> enumValue Generic))"
  by (simp add: classify_def classifySpec_def keywordPriority_def keywordTest_def
                consultsPayload_def)

text \<open>
  C4 as stated fails: the id \<^verbatim>\<open>x_moon\<close> contains the keyword \<^verbatim>\<open>moon\<close>, and still the payload
  type \<^verbatim>\<open>Planet\<close> decides.
\<close>

theorem C4_counterexample:
  "includesStr (toLowerCase ''x_moon'') ''moon''
   \<and> classify ''x_moon'' (emptyData\<lparr>raw_type := Some ''Planet''\<rparr>) = enumValue Planet
   \<and> classify ''x_moon'' (emptyData\<lparr>raw_type := Some ''Planet''\<rparr>)
       \<noteq> classify ''x_moon'' emptyData"
  by code_simp

text \<open>
  The amended C4 at an id that contains both \<^verbatim>\<open>station\<close> and \<^verbatim>\<open>reststop\<close>: it is a Station.
\<close>

theorem C4_witness:
  "raw_type emptyData = None
   \<and> classify ''Stanton_Station_RestStop_3'' emptyData = enumValue Station
   \<and> classify ''Stanton_Station_RestStop_3'' emptyData
       = classifySpec ''Stanton_Station_RestStop_3'' emptyData"
proof -
  have none: "raw_type emptyData = None"
    by (simp add: emptyData_def)
  have first: "(case find (\<lambda>entry. includesStr (toLowerCase ''Stanton_Station_RestStop_3'') (fst entry))
                   keywordPriority of
                  Some entry \<Rightarrow> enumValue (snd entry)
                | None \<Rightarrow> enumValue Generic) = enumValue Station"
    by code_simp
  note c4 = C4_classifier_table [of "''Stanton_Station_RestStop_3''" emptyData]
  from c4 have table: "classify ''Stanton_Station_RestStop_3'' emptyData
                         = classifySpec ''Stanton_Station_RestStop_3'' emptyData"
    by blast
  from c4 none have "classify ''Stanton_Station_RestStop_3'' emptyData =
      (case find (\<lambda>entry. includesStr (toLowerCase ''Stanton_Station_RestStop_3'') (fst entry))
              keywordPriority of
         Some entry \<Rightarrow> enumValue (snd entry)
       | None \<Rightarrow> enumValue Generic)"
    by blast
  from this first have "classify ''Stanton_Station_RestStop_3'' emptyData = enumValue Station"
    by (rule trans)
  with none table show ?thesis
    by blast
qed

section \<open>Absolute positions\<close>

lemma parentWalk_sums:
  "ancestorPositions byId hops parentId = Some ps \<Longrightarrow>
   parentWalk byId parentId pos = Some (foldl addPosition pos ps)"
proof (induction hops arbitrary: parentId pos ps)
  case 0
  then show ?case
    by (subst parentWalk.simps) (auto split: if_splits)
next
  case (Suc hops)
  show ?case
  proof (cases "parentId = [] \<or> map_of byId parentId = None")
    case True
    with Suc.prems show ?thesis
      by (subst parentWalk.simps) (auto split: if_splits)
  next
    case False
    then obtain p where p: "map_of byId parentId = Some p" and ne: "parentId \<noteq> []"
      by auto
    with Suc.prems obtain rest where
      rest: "ancestorPositions byId hops (parent p) = Some rest" and ps: "ps = position p # rest"
      by auto
    have "parentWalk byId parentId pos = parentWalk byId (parent p) (addPosition pos (position p))"
      using p ne by (subst parentWalk.simps) (simp add: addPosition_def)
    also have "\<dots> = Some (foldl addPosition (addPosition pos (position p)) rest)"
      by (rule Suc.IH [OF rest])
    finally show ?thesis
      by (simp add: ps)
  qed
qed

lemma walk_returns_chain_ends:
  assumes "parentWalk byId parentId pos = Some r"
  shows "\<exists>hops ps. ancestorPositions byId hops parentId = Some ps"
proof (rule parentWalk.raw_induct
         [where P = "\<lambda>m k q r. \<exists>hops ps. ancestorPositions m hops k = Some ps", OF _ assms])
  fix walk :: "jsnum CelestialObject dict \<Rightarrow> string \<Rightarrow> jsnum Position \<Rightarrow> jsnum Position option"
  fix m k q r'
  assume IH: "\<And>m k q r'. walk m k q = Some r' \<Longrightarrow> \<exists>hops ps. ancestorPositions m hops k = Some ps"
  assume body:
    "(if k \<noteq> [] then
        (case map_of m k of
           None \<Rightarrow> Some q
         | Some p \<Rightarrow>
             walk m (parent p)
               \<lparr>x = jadd (x q) (x (position p)),
                y = jadd (y q) (y (position p)),
                z = jadd (z q) (z (position p))\<rparr>)
      else Some q) = Some r'"
  show "\<exists>hops ps. ancestorPositions m hops k = Some ps"
  proof (cases "k = [] \<or> map_of m k = None")
    case True
    then have "ancestorPositions m 0 k = Some []" by auto
    then show ?thesis by blast
  next
    case False
    then obtain p where p: "map_of m k = Some p" and ne: "k \<noteq> []" by auto
    with body have "walk m (parent p)
               \<lparr>x = jadd (x q) (x (position p)),
                y = jadd (y q) (y (position p)),
                z = jadd (z q) (z (position p))\<rparr> = Some r'"
      by simp
    from IH [OF this] obtain hops ps where "ancestorPositions m hops (parent p) = Some ps"
      by blast
    with p ne have "ancestorPositions m (Suc hops) k = Some (position p # ps)"
      by simp
    then show ?thesis by blast
  qed
qed

lemma endless_chain_walk:
  "(\<And>hops. ancestorPositions byId hops parentId = None) \<Longrightarrow>
   parentWalk byId parentId pos = None"
  using walk_returns_chain_ends [of byId parentId pos]
  by (cases "parentWalk byId parentId pos") auto

text \<open>
  C5 (as amended). For an id that is not in the system \<^verbatim>\<open>getAbsolutePosition\<close> returns
  \<^verbatim>\<open>null\<close>. For an id that is present and whose parent chain ends, at an empty parent id or
  at one that has no object, within some number of hops, it returns the object's local
  position plus the local positions met on the chain, added componentwise in that order.
  For an id that is present the call does not return exactly when no number of hops ends
  the chain, as on a chain that runs into a cycle.
\<close>

theorem C5_absolute_position:
  "(map_of (objectsById svc) ident = None \<longrightarrow> getAbsolutePosition svc ident = Some None)
   \<and> (map_of (objectsById svc) ident = Some object
        \<and> ancestorPositions (objectsById svc) hops (parent object) = Some ps
      \<longrightarrow> getAbsolutePosition svc ident
            = Some (Some (foldl addPosition (position object) ps)))
   \<and> (map_of (objectsById svc) ident = Some object
      \<longrightarrow> (getAbsolutePosition svc ident = None)
          = (\<forall>n. ancestorPositions (objectsById svc) n (parent object) = None))"
proof -
  have never: "(getAbsolutePosition svc ident = None)
                 = (\<forall>n. ancestorPositions (objectsById svc) n (parent object) = None)"
    if obj: "map_of (objectsById svc) ident = Some object"
  proof
    assume none: "getAbsolutePosition svc ident = None"
    show "\<forall>n. ancestorPositions (objectsById svc) n (parent object) = None"
    proof (rule allI, rule ccontr)
      fix n
      assume "ancestorPositions (objectsById svc) n (parent object) \<noteq> None"
      then obtain qs where "ancestorPositions (objectsById svc) n (parent object) = Some qs"
        by blast
      from parentWalk_sums [OF this, of "position object"] obj none show False
        by (simp add: getAbsolutePosition_def)
    qed
  next
    assume "\<forall>n. ancestorPositions (objectsById svc) n (parent object) = None"
    then have "parentWalk (objectsById svc) (parent object) (position object) = None"
      by (intro endless_chain_walk) blast
    with obj show "getAbsolutePosition svc ident = None"
      by (simp add: getAbsolutePosition_def)
  qed
  have absent: "map_of (objectsById svc) ident = None
      \<longrightarrow> getAbsolutePosition svc ident = Some None"
    by (simp add: getAbsolutePosition_def)
  have ends: "map_of (objectsById svc) ident = Some object
        \<and> ancestorPositions (objectsById svc) hops (parent object) = Some ps
      \<longrightarrow> getAbsolutePosition svc ident
            = Some (Some (foldl addPosition (position object) ps))"
    by (auto simp: getAbsolutePosition_def parentWalk_sums)
  from never have endless: "map_of (objectsById svc) ident = Some object
      \<longrightarrow> (getAbsolutePosition svc ident = None)
          = (\<forall>n. ancestorPositions (objectsById svc) n (parent object) = None)"
    by (rule impI)
  from absent ends endless show ?thesis
    by (intro conjI)
qed

lemma cyclic_walk_never_ends:
  assumes a: "map_of byId ''a'' = Some oa" "parent oa = ''b''"
    and b: "map_of byId ''b'' = Some ob" "parent ob = ''a''"
  shows "parentWalk byId ''b'' pos = None"
proof (cases "parentWalk byId ''b'' pos")
  case None
  then show ?thesis .
next
  case (Some r)
  have "\<not> (m = byId \<and> (k = ''a'' \<or> k = ''b''))" if "parentWalk m k q = Some r'" for m k q r'
  proof (rule parentWalk.raw_induct
             [where P = "\<lambda>m k q r'. \<not> (m = byId \<and> (k = ''a'' \<or> k = ''b''))", OF _ that])
    fix walk :: "jsnum CelestialObject dict \<Rightarrow> string \<Rightarrow> jsnum Position \<Rightarrow> jsnum Position option"
    fix m k q r'
    assume IH: "\<And>m k q r'. walk m k q = Some r' \<Longrightarrow> \<not> (m = byId \<and> (k = ''a'' \<or> k = ''b''))"
    assume body:
      "(if k \<noteq> [] then
          (case map_of m k of
             None \<Rightarrow> Some q
           | Some p \<Rightarrow>
               walk m (parent p)
                 \<lparr>x = jadd (x q) (x (position p)),
                  y = jadd (y q) (y (position p)),
                  z = jadd (z q) (z (position p))\<rparr>)
        else Some q) = Some r'"
    show "\<not> (m = byId \<and> (k = ''a'' \<or> k = ''b''))"
    proof
      assume mk: "m = byId \<and> (k = ''a'' \<or> k = ''b'')"
      then consider "k = ''a''" | "k = ''b''" by blast
      then show False
      proof cases
        case 1
        with mk body a have "walk byId ''b''
               \<lparr>x = jadd (x q) (x (position oa)),
                y = jadd (y q) (y (position oa)),
                z = jadd (z q) (z (position oa))\<rparr> = Some r'"
          by simp
        from IH [OF this] show False by simp
      next
        case 2
        with mk body b have "walk byId ''a''
               \<lparr>x = jadd (x q) (x (position ob)),
                y = jadd (y q) (y (position ob)),
                z = jadd (z q) (z (position ob))\<rparr> = Some r'"
          by simp
        from IH [OF this] show False by simp
      qed
    qed
  qed
  from this [OF Some] show ?thesis by simp
qed

lemma cyclic_chain_never_ends:
  assumes a: "map_of byId ''a'' = Some oa" "parent oa = ''b''"
    and b: "map_of byId ''b'' = Some ob" "parent ob = ''a''"
  shows "ancestorPositions byId hops ''a'' = None \<and> ancestorPositions byId hops ''b'' = None"
  by (induction hops) (use a b in auto)

text \<open>
  C5 as stated fails: in the system built from the records with a cycle, the id \<^verbatim>\<open>a\<close> is
  present and the call for it never returns.
\<close>

theorem C5_counterexample:
  "(case loadFromObject newService cyclicRecords of
      Some (Inr (sys, svc')) \<Rightarrow>
        getObjectById svc' ''a'' \<noteq> None \<and> getAbsolutePosition svc' ''a'' = None
    | _ \<Rightarrow> False)"
proof -
  have "(case loadFromObject newService cyclicRecords of
           Some (Inr (sys, svc')) \<Rightarrow>
             (case map_of (objectsById svc') ''a'' of
                Some oa \<Rightarrow> parent oa = ''b'' | None \<Rightarrow> False)
             \<and> (case map_of (objectsById svc') ''b'' of
                Some ob \<Rightarrow> parent ob = ''a'' | None \<Rightarrow> False)
         | _ \<Rightarrow> False)"
    by code_simp
  then have "\<exists>sys svc' oa ob.
      loadFromObject newService cyclicRecords = Some (Inr (sys, svc'))
      \<and> map_of (objectsById svc') ''a'' = Some oa \<and> parent oa = ''b''
      \<and> map_of (objectsById svc') ''b'' = Some ob \<and> parent ob = ''a''"
    by (auto split: option.splits sum.splits)
  then obtain sys svc' oa ob where
    built: "loadFromObject newService cyclicRecords = Some (Inr (sys, svc'))"
    and a: "map_of (objectsById svc') ''a'' = Some oa" "parent oa = ''b''"
    and b: "map_of (objectsById svc') ''b'' = Some ob" "parent ob = ''a''"
    by blast
  have never: "getAbsolutePosition svc' ''a'' = None"
    using a cyclic_walk_never_ends [OF a b]
    by (simp add: getAbsolutePosition_def)
  from built a(1) never show ?thesis
    by (simp add: getObjectById_def)
qed

text \<open>
  The amended C5 at the chain star (0, 0, 0), planet (100, 0, 0), moon (0, 10, 0): the
  moon's absolute position is (100, 10, 0), and an unknown id gives \<^verbatim>\<open>null\<close>.
\<close>

theorem C5_witness:
  "(case loadFromObject newService chainRecords of
      Some (Inr (sys, svc')) \<Rightarrow>
        (case map_of (objectsById svc') ''stanton1_moon'' of
           Some object \<Rightarrow>
             ancestorPositions (objectsById svc') 2 (parent object)
               = Some [\<lparr>x = Fin 100, y = Fin 0, z = Fin 0\<rparr>, \<lparr>x = Fin 0, y = Fin 0, z = Fin 0\<rparr>]
             \<and> position object = \<lparr>x = Fin 0, y = Fin 10, z = Fin 0\<rparr>
         | None \<Rightarrow> False)
        \<and> getAbsolutePosition svc' ''stanton1_moon''
            = Some (Some \<lparr>x = Fin 100, y = Fin 10, z = Fin 0\<rparr>)
        \<and> map_of (objectsById svc') ''ghost'' = None
        \<and> getAbsolutePosition svc' ''ghost'' = Some None
    | _ \<Rightarrow> False)
   \<and> (case loadFromObject newService cyclicRecords of
      Some (Inr (sys, svc')) \<Rightarrow>
        (case map_of (objectsById svc') ''a'' of
           Some object \<Rightarrow>
             (\<forall>n. ancestorPositions (objectsById svc') n (parent object) = None)
         | None \<Rightarrow> False)
        \<and> getAbsolutePosition svc' ''a'' = None
    | _ \<Rightarrow> False)"
proof -
  let ?chain = "[\<lparr>x = Fin 100, y = Fin 0, z = Fin 0\<rparr>, \<lparr>x = Fin 0, y = Fin 0, z = Fin 0\<rparr>]"
  have "(case loadFromObject newService chainRecords of
      Some (Inr (sys, svc')) \<Rightarrow>
        (case map_of (objectsById svc') ''stanton1_moon'' of
           Some object \<Rightarrow>
             ancestorPositions (objectsById svc') 2 (parent object) = Some ?chain
             \<and> position object = \<lparr>x = Fin 0, y = Fin 10, z = Fin 0\<rparr>
         | None \<Rightarrow> False)
        \<and> map_of (objectsById svc') ''ghost'' = None
    | _ \<Rightarrow> False)"
    by code_simp
  then have "\<exists>sys svc' object.
      loadFromObject newService chainRecords = Some (Inr (sys, svc'))
      \<and> map_of (objectsById svc') ''stanton1_moon'' = Some object
      \<and> ancestorPositions (objectsById svc') 2 (parent object) = Some ?chain
      \<and> position object = \<lparr>x = Fin 0, y = Fin 10, z = Fin 0\<rparr>
      \<and> map_of (objectsById svc') ''ghost'' = None"
    by (auto split: option.splits sum.splits)
  then obtain sys svc' object where
    built: "loadFromObject newService chainRecords = Some (Inr (sys, svc'))"
    and obj: "map_of (objectsById svc') ''stanton1_moon'' = Some object"
    and chain: "ancestorPositions (objectsById svc') 2 (parent object) = Some ?chain"
    and pos: "position object = \<lparr>x = Fin 0, y = Fin 10, z = Fin 0\<rparr>"
    and ghost: "map_of (objectsById svc') ''ghost'' = None"
    by blast
  note c5 = C5_absolute_position [of svc' "''stanton1_moon''" object 2 ?chain]
  from obj chain have "map_of (objectsById svc') ''stanton1_moon'' = Some object
      \<and> ancestorPositions (objectsById svc') 2 (parent object) = Some ?chain"
    by (rule conjI)
  with c5 [THEN conjunct2, THEN conjunct1]
  have "getAbsolutePosition svc' ''stanton1_moon''
      = Some (Some (foldl addPosition (position object) ?chain))"
    by (rule mp)
  then have moon: "getAbsolutePosition svc' ''stanton1_moon''
      = Some (Some \<lparr>x = Fin 100, y = Fin 10, z = Fin 0\<rparr>)"
    by (simp add: pos addPosition_def)
  from C5_absolute_position [of svc' "''ghost''", THEN conjunct1] ghost
  have absent: "getAbsolutePosition svc' ''ghost'' = Some None"
    by (rule mp)
  have first:
    "(case loadFromObject newService chainRecords of
        Some (Inr (sys, svc')) \<Rightarrow>
          (case map_of (objectsById svc') ''stanton1_moon'' of
             Some object \<Rightarrow>
               ancestorPositions (objectsById svc') 2 (parent object) = Some ?chain
               \<and> position object = \<lparr>x = Fin 0, y = Fin 10, z = Fin 0\<rparr>
           | None \<Rightarrow> False)
          \<and> getAbsolutePosition svc' ''stanton1_moon''
              = Some (Some \<lparr>x = Fin 100, y = Fin 10, z = Fin 0\<rparr>)
          \<and> map_of (objectsById svc') ''ghost'' = None
          \<and> getAbsolutePosition svc' ''ghost'' = Some None
      | _ \<Rightarrow> False)"
    unfolding built using obj chain pos moon ghost absent
    by simp
  have "(case loadFromObject newService cyclicRecords of
           Some (Inr (sys, svc')) \<Rightarrow>
             (case map_of (objectsById svc') ''a'' of
                Some oa \<Rightarrow> parent oa = ''b'' | None \<Rightarrow> False)
             \<and> (case map_of (objectsById svc') ''b'' of
                Some ob \<Rightarrow> parent ob = ''a'' | None \<Rightarrow> False)
         | _ \<Rightarrow> False)"
    by code_simp
  then have "\<exists>sys svc' oa ob.
      loadFromObject newService cyclicRecords = Some (Inr (sys, svc'))
      \<and> map_of (objectsById svc') ''a'' = Some oa \<and> parent oa = ''b''
      \<and> map_of (objectsById svc') ''b'' = Some ob \<and> parent ob = ''a''"
    by (auto split: option.splits sum.splits)
  then obtain csys csvc oa ob where
    cbuilt: "loadFromObject newService cyclicRecords = Some (Inr (csys, csvc))"
    and a: "map_of (objectsById csvc) ''a'' = Some oa" "parent oa = ''b''"
    and b: "map_of (objectsById csvc) ''b'' = Some ob" "parent ob = ''a''"
    by blast
  have endless: "\<forall>n. ancestorPositions (objectsById csvc) n (parent oa) = None"
    using cyclic_chain_never_ends [OF a b] a(2) by simp
  from C5_absolute_position [of csvc "''a''" oa, THEN conjunct2, THEN conjunct2, THEN mp,
      OF a(1)] endless
  have never: "getAbsolutePosition csvc ''a'' = None"
    by (rule iffD2)
  have second:
    "(case loadFromObject newService cyclicRecords of
        Some (Inr (sys, svc')) \<Rightarrow>
          (case map_of (objectsById svc') ''a'' of
             Some object \<Rightarrow>
               (\<forall>n. ancestorPositions (objectsById svc') n (parent object) = None)
           | None \<Rightarrow> False)
          \<and> getAbsolutePosition svc' ''a'' = None
      | _ \<Rightarrow> False)"
    unfolding cbuilt using a(1) endless never
    by simp
  from first second show ?thesis
    by (rule conjI)
qed

section \<open>Unknown ids\<close>

text \<open>
  C6 as stated fails: for an id that is not in the built system \<^verbatim>\<open>getOrbitPath\<close> returns
  the empty sequence, the same value it returns for an object of the system and zero
  steps.
\<close>

theorem C6_counterexample:
  "(case loadFromObject newService chainRecords of
      Some (Inr (sys, svc')) \<Rightarrow>
        getObjectById svc' ''ghost'' = None
        \<and> getOrbitPath svc' ''ghost'' 100 = []
        \<and> getObjectById svc' ''stanton1'' \<noteq> None
        \<and> getOrbitPath svc' ''stanton1'' 0 = getOrbitPath svc' ''ghost'' 100
    | _ \<Rightarrow> False)"
proof -
  have "(case loadFromObject newService chainRecords of
      Some (Inr (sys, svc')) \<Rightarrow>
        map_of (objectsById svc') ''ghost'' = None
        \<and> map_of (objectsById svc') ''stanton1'' \<noteq> None
    | _ \<Rightarrow> False)"
    by code_simp
  then have "\<exists>sys svc' object.
      loadFromObject newService chainRecords = Some (Inr (sys, svc'))
      \<and> map_of (objectsById svc') ''ghost'' = None
      \<and> map_of (objectsById svc') ''stanton1'' = Some object"
    by (auto split: option.splits sum.splits)
  then obtain sys svc' object where
    built: "loadFromObject newService chainRecords = Some (Inr (sys, svc'))"
    and ghost: "map_of (objectsById svc') ''ghost'' = None"
    and planet: "map_of (objectsById svc') ''stanton1'' = Some object"
    by blast
  show ?thesis
    unfolding built using ghost planet
    by (simp add: getObjectById_def getOrbitPath_def generateOrbitPath_def Let_def)
qed

text \<open>
  C6 (as amended). For an id that is not in the system, \<^verbatim>\<open>getObjectById\<close> returns
  \<^verbatim>\<open>undefined\<close>, \<^verbatim>\<open>getAbsolutePosition\<close> returns \<^verbatim>\<open>null\<close> and \<^verbatim>\<open>getOrbitPath\<close> returns the empty
  sequence; \<^verbatim>\<open>planRoute\<close> and \<^verbatim>\<open>findAlternativeRoutes\<close> throw when the start or the end id is
  not in the data.
\<close>

theorem C6_not_found_signals:
  "(map_of (objectsById svc) ident = None \<longrightarrow>
      getObjectById svc ident = None
      \<and> getAbsolutePosition svc ident = Some None
      \<and> getOrbitPath svc ident steps = [])
   \<and> (map_of stantonData startId = None \<or> map_of stantonData endId = None \<longrightarrow>
      planRoute stantonData startId endId activeAlerts ship = Inl ObjectNotFound
      \<and> findAlternativeRoutes stantonData startId endId activeAlerts maxAlternatives
          = Inl ObjectNotFound)"
  by (auto simp: getObjectById_def getAbsolutePosition_def getOrbitPath_def planRoute_def
                 findAlternativeRoutes_def split: option.splits)

text \<open>
  The amended C6 at the id \<^verbatim>\<open>ghost\<close>, in the system built from the chain and in the
  route planner's data of two planets.
\<close>

theorem C6_witness:
  "(case loadFromObject newService chainRecords of
      Some (Inr (sys, svc')) \<Rightarrow>
        map_of (objectsById svc') ''ghost'' = None
        \<and> getObjectById svc' ''ghost'' = None
        \<and> getAbsolutePosition svc' ''ghost'' = Some None
        \<and> getOrbitPath svc' ''ghost'' 100 = []
    | _ \<Rightarrow> False)
   \<and> map_of routeSystem ''ghost'' = None
   \<and> planRoute routeSystem ''ghost'' ''b'' [] None = Inl ObjectNotFound
   \<and> findAlternativeRoutes routeSystem ''ghost'' ''b'' [] 3 = Inl ObjectNotFound"
proof -
  have "(case loadFromObject newService chainRecords of
      Some (Inr (sys, svc')) \<Rightarrow> map_of (objectsById svc') ''ghost'' = None
    | _ \<Rightarrow> False)"
    by code_simp
  then have "\<exists>sys svc'.
      loadFromObject newService chainRecords = Some (Inr (sys, svc'))
      \<and> map_of (objectsById svc') ''ghost'' = None"
    by (auto split: option.splits sum.splits)
  then obtain sys svc' where
    built: "loadFromObject newService chainRecords = Some (Inr (sys, svc'))"
    and ghost: "map_of (objectsById svc') ''ghost'' = None"
    by blast
  have lost: "map_of routeSystem ''ghost'' = None"
    by (simp add: routeSystem_def)
  note c6 = C6_not_found_signals [of svc' "''ghost''" 100 routeSystem "''ghost''" "''b''" "[]" None 3]
  from c6 ghost have query:
    "getObjectById svc' ''ghost'' = None \<and> getAbsolutePosition svc' ''ghost'' = Some None
     \<and> getOrbitPath svc' ''ghost'' 100 = []"
    by blast
  from c6 lost have route:
    "planRoute routeSystem ''ghost'' ''b'' [] None = Inl ObjectNotFound
     \<and> findAlternativeRoutes routeSystem ''ghost'' ''b'' [] 3 = Inl ObjectNotFound"
    by blast
  show ?thesis
    unfolding built using ghost query lost route
    by simp
qed

section \<open>Planning a route\<close>

lemma foldl_plus_sum_list:
  "foldl (\<lambda>total v. total + f v) acc vs = acc + sum_list (map f vs)"
  for acc :: real
  by (induction vs arbitrary: acc) (auto simp: algebra_simps)

lemma calculateWaypointSafety_formula:
  "calculateWaypointSafety alerts =
     (if alerts = [] then 100
      else (sum_list (map safetyScore alerts) / real (length alerts))
           * max 0 (1 - (1 / 10) * real (length alerts)))"
  by (simp add: calculateWaypointSafety_def Let_def foldl_plus_sum_list mult.commute)

lemma planRoute_found:
  assumes s: "map_of stantonData startId = Some startObject"
    and e: "map_of stantonData endId = Some endObject"
  shows "planRoute stantonData startId endId activeAlerts ship =
     (let dist = calculateDistance (position startObject) (position endObject);
          time = dist / quantumSpeedOf ship;
          midPoint = midpointOf (position startObject) (position endObject);
          startAlerts = findAlertsInRadius (position startObject) activeAlerts 1000000;
          midAlerts = findAlertsInRadius midPoint activeAlerts 1000000;
          endAlerts = findAlertsInRadius (position endObject) activeAlerts 1000000
      in Inr \<lparr>startObjectId = startId, endObjectId = endId,
              waypoints =
                [\<lparr>objectId = startId, wp_position = position startObject, distance = 0,
                  timeFromPrevious = 0, nearbyAlerts = startAlerts,
                  wp_safetyScore = calculateWaypointSafety startAlerts\<rparr>,
                 \<lparr>objectId = ''midpoint'', wp_position = midPoint, distance = dist / 2,
                  timeFromPrevious = time / 2, nearbyAlerts = midAlerts,
                  wp_safetyScore = calculateWaypointSafety midAlerts\<rparr>,
                 \<lparr>objectId = endId, wp_position = position endObject, distance = dist / 2,
                  timeFromPrevious = time / 2, nearbyAlerts = endAlerts,
                  wp_safetyScore = calculateWaypointSafety endAlerts\<rparr>],
              totalDistance = dist, totalTime = time,
              fuelRequired = (case ship of Some sh \<Rightarrow> dist * fuelConsumption sh / 1000000
                              | None \<Rightarrow> 0),
              overallSafetyScore =
                (calculateWaypointSafety startAlerts + calculateWaypointSafety midAlerts
                 + calculateWaypointSafety endAlerts) / 3\<rparr>)"
  by (simp add: planRoute_def s e Let_def midpointOf_def)

text \<open>
  C7 (as amended). When both ids are in the data, \<^verbatim>\<open>planRoute\<close> returns a plan with the
  three waypoints start, midpoint and end; the total distance is the Euclidean distance
  of the two stored positions; the total time is the distance divided by the ship's
  quantum speed, or by 200,000 when no ship is given or the ship's quantum speed is
  zero; the fuel is 0 without a ship; every waypoint carries the alerts within 1,000,000
  units and the score 100 without such alerts, else their average score times
  \<open>max 0 (1 - 0.1 * count)\<close>; the overall score is the mean of the three waypoint scores.
  Without a ship and without alerts near the waypoints, a distance of 1,000,000 gives the
  time 5, the fuel 0 and the overall score 100.
\<close>

theorem C7_plan_route:
  assumes s: "map_of stantonData startId = Some startObject"
    and e: "map_of stantonData endId = Some endObject"
  shows "\<exists>plan.
     planRoute stantonData startId endId activeAlerts ship = Inr plan
     \<and> map objectId (waypoints plan) = [startId, ''midpoint'', endId]
     \<and> map wp_position (waypoints plan)
         = [position startObject, midpointOf (position startObject) (position endObject),
            position endObject]
     \<and> totalDistance plan
         = sqrt ((x (position endObject) - x (position startObject))\<^sup>2
                 + (y (position endObject) - y (position startObject))\<^sup>2
                 + (z (position endObject) - z (position startObject))\<^sup>2)
     \<and> totalTime plan
         = totalDistance plan
           / (case ship of
                None \<Rightarrow> 200000
              | Some sh \<Rightarrow> if quantumSpeed sh = 0 then 200000 else quantumSpeed sh)
     \<and> (ship = None \<longrightarrow> fuelRequired plan = 0)
     \<and> list_all
          (\<lambda>wp. nearbyAlerts wp
                  = filter (\<lambda>alert. calculateDistance (wp_position wp)
                                       (loc_position (location alert)) \<le> 1000000)
                      activeAlerts
                \<and> wp_safetyScore wp
                  = (if nearbyAlerts wp = [] then 100
                     else (sum_list (map safetyScore (nearbyAlerts wp))
                           / real (length (nearbyAlerts wp)))
                          * max 0 (1 - (1 / 10) * real (length (nearbyAlerts wp)))))
          (waypoints plan)
     \<and> overallSafetyScore plan = sum_list (map wp_safetyScore (waypoints plan)) / 3
     \<and> (ship = None \<and> totalDistance plan = 1000000
          \<and> list_all (\<lambda>wp. nearbyAlerts wp = []) (waypoints plan)
        \<longrightarrow> totalTime plan = 5 \<and> fuelRequired plan = 0 \<and> overallSafetyScore plan = 100
            \<and> length (waypoints plan) = 3)"
  unfolding planRoute_found [OF s e] Let_def
  by (auto simp: calculateWaypointSafety_formula findAlertsInRadius_def calculateDistance_def
                 Let_def quantumSpeedOf_def DEFAULT_QUANTUM_SPEED_def power2_eq_square
           split: option.splits)


lemma routeSystem_lookup:
  "map_of routeSystem ''a''
     = Some (stantonObject ''a'' ''stantonstar'' ''Planet'' \<lparr>x = 0, y = 0, z = 0\<rparr>)"
  "map_of routeSystem ''b''
     = Some (stantonObject ''b'' ''stantonstar'' ''Planet'' \<lparr>x = 1000000, y = 0, z = 0\<rparr>)"
  by (simp_all add: routeSystem_def)

text \<open>
  C7 as stated fails: a ship is given, its quantum speed is zero, and the total time is
  the distance divided by 200,000; it is not the distance divided by the ship's speed.
\<close>

theorem C7_counterexample:
  "(case planRoute routeSystem ''a'' ''b'' [] (Some stalledShip) of
      Inr plan \<Rightarrow>
        quantumSpeed stalledShip = 0
        \<and> totalDistance plan = 1000000
        \<and> totalTime plan = 5
        \<and> totalTime plan * quantumSpeed stalledShip \<noteq> totalDistance plan
    | Inl e \<Rightarrow> False)"
  unfolding planRoute_found [OF routeSystem_lookup] Let_def
  by (simp add: stantonObject_def calculateDistance_def quantumSpeedOf_def stalledShip_def
                DEFAULT_QUANTUM_SPEED_def)

text \<open>
  The amended C7 at two planets 1,000,000 units apart, without ship and alerts.
\<close>

theorem C7_witness:
  "map_of routeSystem ''a''
     = Some (stantonObject ''a'' ''stantonstar'' ''Planet'' \<lparr>x = 0, y = 0, z = 0\<rparr>)
   \<and> map_of routeSystem ''b''
     = Some (stantonObject ''b'' ''stantonstar'' ''Planet'' \<lparr>x = 1000000, y = 0, z = 0\<rparr>)
   \<and> (case planRoute routeSystem ''a'' ''b'' [] None of
         Inr plan \<Rightarrow>
           totalDistance plan = 1000000 \<and> totalTime plan = 5 \<and> fuelRequired plan = 0
           \<and> overallSafetyScore plan = 100 \<and> length (waypoints plan) = 3
           \<and> map objectId (waypoints plan) = [''a'', ''midpoint'', ''b'']
       | Inl e \<Rightarrow> False)"
proof -
  note inst = C7_plan_route [OF routeSystem_lookup, of "[]" None]
  from inst show ?thesis
    by (elim exE conjE) (simp add: stantonObject_def list_all_iff routeSystem_lookup)
qed

section \<open>Alternative routes\<close>

lemma planRoute_returns:
  "map_of stantonData a \<noteq> None \<Longrightarrow> map_of stantonData b \<noteq> None \<Longrightarrow>
   \<exists>plan. planRoute stantonData a b activeAlerts ship = Inr plan"
  by (auto simp: planRoute_def Let_def)

lemma alternativeLoop_result:
  assumes known: "list_all (\<lambda>w. map_of stantonData (name w) \<noteq> None) candidates"
    and s: "map_of stantonData startId \<noteq> None"
    and e: "map_of stantonData endId \<noteq> None"
  shows "\<exists>added.
     alternativeLoop stantonData startId endId activeAlerts maxAlternatives directRoute
       candidates found = Inr (found @ added)
     \<and> length (found @ added) \<le> max maxAlternatives (length found)
     \<and> list_all (\<lambda>r. overallSafetyScore directRoute + 5 < overallSafetyScore r) added"
  using known
proof (induction candidates arbitrary: found)
  case Nil
  then show ?case by simp
next
  case (Cons w ws)
  show ?case
  proof (cases "maxAlternatives \<le> length found")
    case True
    then show ?thesis by simp
  next
    case False
    from Cons.prems have w: "map_of stantonData (name w) \<noteq> None"
      and ws: "list_all (\<lambda>w. map_of stantonData (name w) \<noteq> None) ws"
      by simp_all
    obtain r1 where r1: "planRoute stantonData startId (name w) activeAlerts None = Inr r1"
      using planRoute_returns [OF s w] by blast
    obtain r2 where r2: "planRoute stantonData (name w) endId activeAlerts None = Inr r2"
      using planRoute_returns [OF w e] by blast
    define combined where
      "combined = \<lparr>startObjectId = startId, endObjectId = endId,
                   waypoints = butlast (waypoints r1) @ waypoints r2,
                   totalDistance = totalDistance r1 + totalDistance r2,
                   totalTime = totalTime r1 + totalTime r2,
                   fuelRequired = fuelRequired r1 + fuelRequired r2,
                   overallSafetyScore = (overallSafetyScore r1 + overallSafetyScore r2) / 2\<rparr>"
    define found' where
      "found' = (if overallSafetyScore combined > overallSafetyScore directRoute + 5
                 then found @ [combined] else found)"
    have step: "alternativeLoop stantonData startId endId activeAlerts maxAlternatives
                  directRoute (w # ws) found
                = alternativeLoop stantonData startId endId activeAlerts maxAlternatives
                    directRoute ws found'"
      using False by (simp add: r1 r2 Let_def combined_def found'_def)
    from Cons.IH [OF ws, of found'] obtain added where
      run: "alternativeLoop stantonData startId endId activeAlerts maxAlternatives directRoute
              ws found' = Inr (found' @ added)"
      and len: "length (found' @ added) \<le> max maxAlternatives (length found')"
      and safer: "list_all (\<lambda>r. overallSafetyScore directRoute + 5 < overallSafetyScore r) added"
      by blast
    show ?thesis
    proof (cases "overallSafetyScore combined > overallSafetyScore directRoute + 5")
      case True
      then have f: "found' = found @ [combined]"
        by (simp add: found'_def)
      have "alternativeLoop stantonData startId endId activeAlerts maxAlternatives directRoute
              (w # ws) found = Inr (found @ (combined # added))"
        using step run f by simp
      moreover have "length (found @ (combined # added)) \<le> max maxAlternatives (length found)"
        using len f False by simp
      moreover have "list_all (\<lambda>r. overallSafetyScore directRoute + 5 < overallSafetyScore r)
                       (combined # added)"
        using safer True by simp
      ultimately show ?thesis by blast
    next
      case False
      then have f: "found' = found"
        by (simp add: found'_def)
      from step run len safer f show ?thesis by auto
    qed
  qed
qed

text \<open>
  C8 (as amended). When every object of the data has its key as its \<^verbatim>\<open>name\<close> and
  \<^verbatim>\<open>planRoute\<close> returns the direct route, \<^verbatim>\<open>findAlternativeRoutes\<close> returns a sequence that
  is not empty, contains the direct route, is in descending order of the overall score,
  is the direct route alone when that route's score is at least 90, and has beside the
  direct route at most \<^verbatim>\<open>maxAlternatives\<close> routes, each with a score more than 5 above the
  direct route's.
\<close>

theorem C8_alternatives:
  assumes names: "list_all (\<lambda>entry. name (snd entry) = fst entry) stantonData"
    and direct: "planRoute stantonData startId endId activeAlerts None = Inr directRoute"
  shows "\<exists>routes alternatives.
     findAlternativeRoutes stantonData startId endId activeAlerts maxAlternatives = Inr routes
     \<and> routes \<noteq> []
     \<and> directRoute \<in> set routes
     \<and> sorted_wrt (\<lambda>a b. overallSafetyScore a \<ge> overallSafetyScore b) routes
     \<and> (overallSafetyScore directRoute \<ge> 90 \<longrightarrow> routes = [directRoute])
     \<and> mset routes = mset (directRoute # alternatives)
     \<and> length alternatives \<le> maxAlternatives
     \<and> list_all (\<lambda>r. overallSafetyScore r > overallSafetyScore directRoute + 5) alternatives"
proof (cases "overallSafetyScore directRoute \<ge> 90")
  case True
  then have "findAlternativeRoutes stantonData startId endId activeAlerts maxAlternatives
               = Inr [directRoute]"
    by (simp add: findAlternativeRoutes_def direct)
  then show ?thesis
    using True by (intro exI [of _ "[directRoute]"] exI [of _ "[]"]) simp
next
  case False
  define candidates where
    "candidates = filter (\<lambda>obj. name obj \<noteq> startId \<and> name obj \<noteq> endId)
                    (filter (\<lambda>obj. type obj = ''LagrangePoint'' \<or> type obj = ''Station''
                                    \<or> parent obj = ''stantonstar'')
                       (map snd stantonData))"
  from direct have s: "map_of stantonData startId \<noteq> None"
    and e: "map_of stantonData endId \<noteq> None"
    by (auto simp: planRoute_def split: option.splits)
  have known: "list_all (\<lambda>w. map_of stantonData (name w) \<noteq> None) candidates"
    unfolding list_all_iff
  proof
    fix w
    assume "w \<in> set candidates"
    then obtain k where k: "(k, w) \<in> set stantonData"
      by (auto simp: candidates_def)
    with names have "name w = k"
      by (auto simp: list_all_iff)
    with k show "map_of stantonData (name w) \<noteq> None"
      by (auto simp: map_of_eq_None_iff intro: rev_image_eqI)
  qed
  from alternativeLoop_result [OF known s e, of activeAlerts maxAlternatives directRoute "[]"]
  obtain alternatives where
    run: "alternativeLoop stantonData startId endId activeAlerts maxAlternatives directRoute
            candidates [] = Inr alternatives"
    and len: "length alternatives \<le> maxAlternatives"
    and safer: "list_all (\<lambda>r. overallSafetyScore directRoute + 5 < overallSafetyScore r)
                  alternatives"
    by auto
  define routes where
    "routes = sort_key (\<lambda>r. - overallSafetyScore r) (directRoute # alternatives)"
  have res: "findAlternativeRoutes stantonData startId endId activeAlerts maxAlternatives
               = Inr routes"
    using False run
    by (simp add: findAlternativeRoutes_def direct Let_def candidates_def routes_def)
  have ms: "mset routes = mset (directRoute # alternatives)"
    by (simp add: routes_def)
  then have "set routes = set (directRoute # alternatives)"
    by (rule mset_eq_setD)
  then have mem: "directRoute \<in> set routes" and ne: "routes \<noteq> []"
    by auto
  have "sorted (map (\<lambda>r. - overallSafetyScore r) routes)"
    unfolding routes_def by (rule sorted_sort_key)
  then have srt: "sorted_wrt (\<lambda>a b. overallSafetyScore a \<ge> overallSafetyScore b) routes"
    by (simp add: sorted_map)
  from res ne mem srt False ms len safer show ?thesis
    by blast
qed


lemma ghostSystem_lookup:
  "map_of ghostSystem ''a''
     = Some (stantonObject ''a'' ''stantonstar'' ''Planet'' \<lparr>x = 0, y = 0, z = 0\<rparr>)"
  "map_of ghostSystem ''b''
     = Some (stantonObject ''b'' ''stantonstar'' ''Planet'' \<lparr>x = 1000000, y = 0, z = 0\<rparr>)"
  "map_of ghostSystem ''ghost'' = None"
  by (simp_all add: ghostSystem_def routeSystem_def)

text \<open>
  C8 as stated fails: \<^verbatim>\<open>planRoute\<close> returns the direct route, with the score 18, and
  \<^verbatim>\<open>findAlternativeRoutes\<close> throws, since the candidate stored under \<^verbatim>\<open>c\<close> has the \<^verbatim>\<open>name\<close>
  \<^verbatim>\<open>ghost\<close>, which is no key of the data.
\<close>

theorem C8_counterexample:
  "(case planRoute ghostSystem ''a'' ''b'' [nearAlert] None of
      Inr directRoute \<Rightarrow>
        overallSafetyScore directRoute = 18
        \<and> findAlternativeRoutes ghostSystem ''a'' ''b'' [nearAlert] 3 = Inl ObjectNotFound
    | Inl e \<Rightarrow> False)"
proof -
  have near: "calculateDistance \<lparr>x = 0, y = 0, z = 0\<rparr> (loc_position (location nearAlert)) \<le> 1000000"
    "calculateDistance \<lparr>x = 500000, y = 0, z = 0\<rparr> (loc_position (location nearAlert)) \<le> 1000000"
    "calculateDistance \<lparr>x = 1000000, y = 0, z = 0\<rparr> (loc_position (location nearAlert)) \<le> 1000000"
    by (simp_all add: calculateDistance_def nearAlert_def)
  have score: "calculateWaypointSafety [nearAlert] = 18"
    by (simp add: calculateWaypointSafety_def nearAlert_def)
  have far: "calculateDistance \<lparr>x = 0, y = 0, z = 0\<rparr> \<lparr>x = 1000000, y = 0, z = 0\<rparr> = 1000000"
    by (simp add: calculateDistance_def)
  have direct: "planRoute ghostSystem ''a'' ''b'' [nearAlert] None = Inr
     \<lparr>startObjectId = ''a'', endObjectId = ''b'',
      waypoints =
        [\<lparr>objectId = ''a'', wp_position = \<lparr>x = 0, y = 0, z = 0\<rparr>, distance = 0,
          timeFromPrevious = 0, nearbyAlerts = [nearAlert], wp_safetyScore = 18\<rparr>,
         \<lparr>objectId = ''midpoint'', wp_position = \<lparr>x = 500000, y = 0, z = 0\<rparr>,
          distance = 500000, timeFromPrevious = 5 / 2, nearbyAlerts = [nearAlert],
          wp_safetyScore = 18\<rparr>,
         \<lparr>objectId = ''b'', wp_position = \<lparr>x = 1000000, y = 0, z = 0\<rparr>,
          distance = 500000, timeFromPrevious = 5 / 2, nearbyAlerts = [nearAlert],
          wp_safetyScore = 18\<rparr>],
      totalDistance = 1000000, totalTime = 5, fuelRequired = 0, overallSafetyScore = 18\<rparr>"
    unfolding planRoute_found [OF ghostSystem_lookup(1,2)] Let_def
    by (simp add: stantonObject_def midpointOf_def findAlertsInRadius_def near score far
                  quantumSpeedOf_def DEFAULT_QUANTUM_SPEED_def)
  have lost: "planRoute ghostSystem ''a'' ''ghost'' [nearAlert] None = Inl ObjectNotFound"
    by (simp add: planRoute_def ghostSystem_lookup)
  have cands:
    "filter (\<lambda>obj. name obj \<noteq> ''a'' \<and> name obj \<noteq> ''b'')
       (filter (\<lambda>obj. type obj = ''LagrangePoint'' \<or> type obj = ''Station''
                       \<or> parent obj = ''stantonstar'')
          (map snd ghostSystem))
     = [stantonObject ''ghost'' ''stantonstar'' ''Station'' \<lparr>x = 0, y = 5000000, z = 0\<rparr>]"
    by (simp add: ghostSystem_def routeSystem_def stantonObject_def)
  have nm: "name (stantonObject ''ghost'' ''stantonstar'' ''Station'' \<lparr>x = 0, y = 5000000, z = 0\<rparr>)
              = ''ghost''"
    by (simp add: stantonObject_def)
  have "findAlternativeRoutes ghostSystem ''a'' ''b'' [nearAlert] 3 = Inl ObjectNotFound"
    by (simp add: findAlternativeRoutes_def direct Let_def cands nm lost del: filter_filter)
  then show ?thesis
    unfolding direct by simp
qed

text \<open>
  The amended C8 at two planets, a station and an alert between the planets.
\<close>

theorem C8_witness:
  "list_all (\<lambda>entry. name (snd entry) = fst entry) detourSystem
   \<and> (case planRoute detourSystem ''a'' ''b'' [nearAlert] None of
         Inr directRoute \<Rightarrow>
           (case findAlternativeRoutes detourSystem ''a'' ''b'' [nearAlert] 3 of
              Inr routes \<Rightarrow>
                routes \<noteq> [] \<and> directRoute \<in> set routes
                \<and> sorted_wrt (\<lambda>a b. overallSafetyScore a \<ge> overallSafetyScore b) routes
                \<and> length routes \<le> 4
            | Inl e \<Rightarrow> False)
       | Inl e \<Rightarrow> False)"
proof -
  have names: "list_all (\<lambda>entry. name (snd entry) = fst entry) detourSystem"
    by (simp add: detourSystem_def routeSystem_def stantonObject_def)
  have "map_of detourSystem ''a'' \<noteq> None" "map_of detourSystem ''b'' \<noteq> None"
    by (simp_all add: detourSystem_def routeSystem_def)
  from planRoute_returns [OF this] obtain directRoute where
    direct: "planRoute detourSystem ''a'' ''b'' [nearAlert] None = Inr directRoute"
    by blast
  from C8_alternatives [OF names direct, of 3] obtain routes alternatives where
    res: "findAlternativeRoutes detourSystem ''a'' ''b'' [nearAlert] 3 = Inr routes"
    and ne: "routes \<noteq> []" and mem: "directRoute \<in> set routes"
    and srt: "sorted_wrt (\<lambda>a b. overallSafetyScore a \<ge> overallSafetyScore b) routes"
    and ms: "mset routes = mset (directRoute # alternatives)"
    and len: "length alternatives \<le> 3"
    by blast
  from ms have "length routes = Suc (length alternatives)"
    by (metis length_Cons size_mset)
  with len have "length routes \<le> 4" by simp
  with names ne mem srt show ?thesis
    unfolding direct res by simp
qed

section \<open>Position issues of the validator\<close>





end
